theory Spec2Isabelle
  imports Complex_Main
begin

section \<open>Pointer events of the grid: data model\<close>

text \<open>
  The development embeds \<^verbatim>\<open>src/core/gridGL/interaction/usePointerEvents.ts\<close>.

  A JavaScript \<^verbatim>\<open>number\<close> is a binary64 value. A finite one is modelled as the real number
  it denotes; the coordinates, scales and cells that the handlers receive and store are
  finite. The two threshold tests (lines 47--48 and 116--117) are evaluated as the source
  evaluates them, every operation rounded to binary64, and their intermediate results can
  overflow. \<^verbatim>\<open>Math.floor\<close> and \<^verbatim>\<open>Math.abs\<close> are exact in binary64; the quotient of a coordinate
  by a cell dimension is taken exact. \<^verbatim>\<open>Math.floor\<close> returns a number again, so cell
  coordinates are integral reals.
\<close>

type_synonym number = real

text \<open>
  \<^verbatim>\<open>interface MousePosition { x: number; y: number }\<close>; the fields are called \<open>px\<close> and
  \<open>py\<close> here. The same record stands for the \<^verbatim>\<open>PIXI.Point\<close> handed to the handlers, of which
  only \<^verbatim>\<open>x\<close> and \<^verbatim>\<open>y\<close> are read.
\<close>

record MousePosition =
  px :: number
  py :: number

text \<open>The anonymous type \<^verbatim>\<open>{ originPosition: MousePosition; terminalPosition: MousePosition }\<close>.\<close>

record Rectangle =
  originPosition :: MousePosition
  terminalPosition :: MousePosition

text \<open>
  \<^verbatim>\<open>GridInteractionState\<close>: the six fields that the object literals of \<^verbatim>\<open>onPointerMove\<close>
  write.
\<close>

record GridInteractionState =
  keyboardMovePosition :: MousePosition
  cursorPosition :: MousePosition
  multiCursorPosition :: Rectangle
  showMultiCursor :: bool
  showInput :: bool
  inputInitialValue :: string

text \<open>What the handlers read of a DOM \<^verbatim>\<open>PointerEvent\<close>.\<close>

record PointerEvent =
  button :: int
  ctrlKey :: bool

text \<open>What the handlers read and write of a \<^verbatim>\<open>Viewport\<close>: \<^verbatim>\<open>scale.x\<close> and \<^verbatim>\<open>dirty\<close>.\<close>

record Viewport =
  scale_x :: number
  dirty :: bool

text \<open>
  Calls that leave the hook, in the order they are made: \<^verbatim>\<open>setInteractionState(s)\<close> and
  \<^verbatim>\<open>onDoubleClickCanvas(event, interactionState, ...)\<close>.
\<close>

datatype call =
  SetInteractionState GridInteractionState
| OnDoubleClickCanvas PointerEvent GridInteractionState

text \<open>
  The state one render of the hook closes over, together with the host's timers.
  \<^item> \<open>downPosition\<close> \dots \<open>doubleClickTimeout\<close> are the five \<^verbatim>\<open>useState\<close> cells; a handler reads
    the values of the current render and its \<^verbatim>\<open>set...\<close> calls give the values of the next
    one, so a handler is a function from the state before to the state after;
  \<^item> \<open>viewportRef\<close> is \<^verbatim>\<open>props.viewportRef.current\<close> and \<open>interactionState\<close> is
    \<^verbatim>\<open>props.interactionState\<close>, the value that \<^verbatim>\<open>setInteractionState\<close> replaces;
  \<^item> \<open>clock\<close>, \<open>nextHandle\<close> and \<open>pending\<close> are the host's timer queue: \<open>pending\<close> lists the
    scheduled timers as (handle, deadline), oldest first;
  \<^item> \<open>calls\<close> records the calls to the collaborators.
\<close>

record World =
  downPosition :: "MousePosition option"
  downPositionRaw :: "MousePosition option"
  previousPosition :: "Rectangle option"
  pointerMoved :: bool
  doubleClickTimeout :: "nat option"
  viewportRef :: "Viewport option"
  interactionState :: GridInteractionState
  clock :: nat
  nextHandle :: nat
  pending :: "(nat \<times> nat) list"
  calls :: "call list"

subsection \<open>Constants\<close>

definition MINIMUM_MOVE_POSITION :: number where
  "MINIMUM_MOVE_POSITION = 5"

definition DOUBLE_CLICK_TIME :: nat where
  "DOUBLE_CLICK_TIME = 500"

text \<open>
  Modelled from the spec: \<^verbatim>\<open>constants/gridConstants\<close>, which exports \<^verbatim>\<open>CELL_WIDTH\<close> and
  \<^verbatim>\<open>CELL_HEIGHT\<close>, is not among the sources. The specification calls them fixed configuration
  constants and gives \<^verbatim>\<open>CELL_WIDTH=100, CELL_HEIGHT=20\<close> (Scenario A).
\<close>

definition CELL_WIDTH :: number where
  "CELL_WIDTH = 100"

definition CELL_HEIGHT :: number where
  "CELL_HEIGHT = 20"

section \<open>Binary64 arithmetic\<close>

text \<open>
  The results of the arithmetic in the two threshold tests (lines 47--48 and 116--117): a
  finite binary64 value, an infinity, or NaN. Positive and negative zero are not told
  apart; no operation of this file distinguishes them.
\<close>

datatype float64 = Fin real | PosInf | NegInf | NaN

text \<open>The number of binary digits of a positive integer.\<close>

function bitLength :: "int \<Rightarrow> nat" where
  "bitLength k = (if k \<le> 0 then 0 else Suc (bitLength (k div 2)))"
  by pat_completeness auto
termination
  by (relation "measure nat") auto

declare bitLength.simps [simp del]

text \<open>The binary exponent of \<open>x \<noteq> 0\<close>: the \<open>e\<close> with \<open>2 ^ e \<le> \<bar>x\<bar> < 2 ^ (e + 1)\<close>.\<close>

definition exponent :: "real \<Rightarrow> int" where
  "exponent x =
     (if \<bar>x\<bar> \<ge> 1 then int (bitLength \<lfloor>\<bar>x\<bar>\<rfloor>) - 1
      else - int (bitLength (\<lceil>1 / \<bar>x\<bar>\<rceil> - 1)))"

text \<open>Rounding to the nearest integer, ties to the even one.\<close>

definition roundEven :: "real \<Rightarrow> int" where
  "roundEven y =
     (if y - of_int \<lfloor>y\<rfloor> < 1 / 2 then \<lfloor>y\<rfloor>
      else if y - of_int \<lfloor>y\<rfloor> > 1 / 2 then \<lfloor>y\<rfloor> + 1
      else if even \<lfloor>y\<rfloor> then \<lfloor>y\<rfloor> else \<lfloor>y\<rfloor> + 1)"

text \<open>
  IEEE 754 rounding of an exact result to binary64, to nearest, ties to even: 53 significant
  bits, the least exponent of a unit in the last place is \<open>-1074\<close> (subnormal numbers),
  and a rounded magnitude of \<open>2 ^ 1024\<close> or more overflows to an infinity.
\<close>

definition round64 :: "real \<Rightarrow> float64" where
  "round64 x =
     (if x = 0 then Fin 0
      else let q = max (exponent x - 52) (- 1074);
               r = of_int (roundEven (x / 2 powi q)) * 2 powi q
           in if r \<ge> 2 ^ 1024 then PosInf
              else if r \<le> - (2 ^ 1024) then NegInf
              else Fin r)"

text \<open>\<^verbatim>\<open>a - b\<close> and \<^verbatim>\<open>a * b\<close> of two finite numbers.\<close>

definition sub64 :: "number \<Rightarrow> number \<Rightarrow> float64" where
  "sub64 a b = round64 (a - b)"

definition mul64 :: "number \<Rightarrow> number \<Rightarrow> float64" where
  "mul64 a b = round64 (a * b)"

text \<open>\<^verbatim>\<open>Math.abs\<close>, \<^verbatim>\<open>+\<close>, \<^verbatim>\<open><\<close> and \<^verbatim>\<open>>\<close> on such results. A comparison with NaN is false.\<close>

fun abs64 :: "float64 \<Rightarrow> float64" where
  "abs64 (Fin a) = Fin \<bar>a\<bar>"
| "abs64 PosInf = PosInf"
| "abs64 NegInf = PosInf"
| "abs64 NaN = NaN"

fun add64 :: "float64 \<Rightarrow> float64 \<Rightarrow> float64" where
  "add64 (Fin a) (Fin b) = round64 (a + b)"
| "add64 NaN b = NaN"
| "add64 a NaN = NaN"
| "add64 PosInf NegInf = NaN"
| "add64 NegInf PosInf = NaN"
| "add64 PosInf b = PosInf"
| "add64 a PosInf = PosInf"
| "add64 NegInf b = NegInf"
| "add64 a NegInf = NegInf"

fun lt64 :: "float64 \<Rightarrow> float64 \<Rightarrow> bool" where
  "lt64 (Fin a) (Fin b) = (a < b)"
| "lt64 NaN b = False"
| "lt64 a NaN = False"
| "lt64 a NegInf = False"
| "lt64 PosInf b = False"
| "lt64 NegInf b = True"
| "lt64 a PosInf = True"

definition gt64 :: "float64 \<Rightarrow> float64 \<Rightarrow> bool" where
  "gt64 a b = lt64 b a"

section \<open>The host's timers\<close>

text \<open>
  \<^verbatim>\<open>window.setTimeout(callback, delay)\<close>: the host hands out a fresh handle and queues the
  timer. The only callback this file ever schedules is
  \<^verbatim>\<open>() => setDoubleClickTimeout(undefined)\<close>, so the queue does not store it.
\<close>

definition window_setTimeout :: "World \<Rightarrow> nat \<Rightarrow> nat \<times> World" where
  "window_setTimeout w delay =
     (nextHandle w,
      w\<lparr>pending := pending w @ [(nextHandle w, clock w + delay)],
        nextHandle := Suc (nextHandle w)\<rparr>)"

text \<open>
  \<open>dt\<close> time units pass: every timer whose deadline is reached runs its callback, which
  sets \<^verbatim>\<open>doubleClickTimeout\<close> to \<^verbatim>\<open>undefined\<close>, and leaves the queue.
\<close>

definition elapse :: "nat \<Rightarrow> World \<Rightarrow> World" where
  "elapse dt w =
     (let now = clock w + dt;
          due = filter (\<lambda>t. snd t \<le> now) (pending w);
          rest = filter (\<lambda>t. \<not> snd t \<le> now) (pending w)
      in w\<lparr>clock := now,
           pending := rest,
           doubleClickTimeout := (if due = [] then doubleClickTimeout w else None)\<rparr>)"

section \<open>The handlers\<close>

text \<open>
  JavaScript truthiness of \<^verbatim>\<open>doubleClickTimeout: number | undefined\<close>: \<^verbatim>\<open>undefined\<close> and
  \<^verbatim>\<open>0\<close> are falsy.
\<close>

definition truthy :: "nat option \<Rightarrow> bool" where
  "truthy t = (case t of None \<Rightarrow> False | Some h \<Rightarrow> h \<noteq> 0)"

text \<open>
  \<^verbatim>\<open>isDoubleClick\<close> (lines 42--55). \<open>odc\<close> is what the absent collaborator
  \<^verbatim>\<open>onDoubleClickCanvas\<close> makes of the interaction state through the setter it is given.
  The result is the returned boolean and the state after the call.
\<close>

definition isDoubleClick ::
  "(PointerEvent \<Rightarrow> GridInteractionState \<Rightarrow> GridInteractionState) \<Rightarrow>
   World \<Rightarrow> MousePosition \<Rightarrow> PointerEvent \<Rightarrow> bool \<times> World" where
  "isDoubleClick odc w world event =
     (if button event \<noteq> 0 then (False, w)
      else case downPositionRaw w of
        None \<Rightarrow> (False, w)
      | Some raw \<Rightarrow>
          (case viewportRef w of
             None \<Rightarrow> (False, w)
           | Some vp \<Rightarrow>
               if truthy (doubleClickTimeout w) \<and>
                  \<not> pointerMoved w \<and>
                  lt64 (add64 (abs64 (sub64 (px raw) (px world)))
                              (abs64 (sub64 (py raw) (py world))))
                       (mul64 MINIMUM_MOVE_POSITION (scale_x vp))
               then (True,
                     w\<lparr>doubleClickTimeout := None,
                       interactionState := odc event (interactionState w),
                       calls := calls w @ [OnDoubleClickCanvas event (interactionState w)]\<rparr>)
               else (False, w)))"

text \<open>\<^verbatim>\<open>onPointerDown\<close> (lines 57--106).\<close>

definition onPointerDown ::
  "(PointerEvent \<Rightarrow> GridInteractionState \<Rightarrow> GridInteractionState) \<Rightarrow>
   World \<Rightarrow> MousePosition \<Rightarrow> PointerEvent \<Rightarrow> World" where
  "onPointerDown odc w world event =
     (if fst (isDoubleClick odc w world event) then snd (isDoubleClick odc w world event)
      else case viewportRef w of
        None \<Rightarrow> w
      | Some vp \<Rightarrow>
          (let w1 = w\<lparr>downPositionRaw := Some \<lparr>px = px world, py = py world\<rparr>\<rparr>;
               down_cell_x = of_int \<lfloor>px world / CELL_WIDTH\<rfloor>;
               down_cell_y = of_int \<lfloor>py world / CELL_HEIGHT\<rfloor>;
               rightClick = (button event = 2 \<or> (button event = 0 \<and> ctrlKey event));
               previousPosition' =
                 \<lparr>originPosition = \<lparr>px = down_cell_x, py = down_cell_y\<rparr>,
                  terminalPosition = \<lparr>px = down_cell_x, py = down_cell_y\<rparr>\<rparr>;
               interactionState' =
                 (interactionState w)
                   \<lparr>cursorPosition := \<lparr>px = down_cell_x, py = down_cell_y\<rparr>,
                    multiCursorPosition := previousPosition',
                    showMultiCursor := False\<rparr>;
               proceed =
                 w1\<lparr>downPosition := Some \<lparr>px = down_cell_x, py = down_cell_y\<rparr>,
                    previousPosition := Some previousPosition',
                    interactionState := interactionState',
                    calls := calls w @ [SetInteractionState interactionState'],
                    pointerMoved := False\<rparr>
           in if rightClick \<and> showMultiCursor (interactionState w) then
                (if down_cell_x \<ge> px (originPosition (multiCursorPosition (interactionState w))) \<and>
                    down_cell_x \<le> px (terminalPosition (multiCursorPosition (interactionState w))) \<and>
                    down_cell_y \<ge> py (originPosition (multiCursorPosition (interactionState w))) \<and>
                    down_cell_y \<le> py (terminalPosition (multiCursorPosition (interactionState w)))
                 then w1
                 else proceed)
              else if rightClick then w1
              else proceed))"

text \<open>\<^verbatim>\<open>onPointerMove\<close> (lines 108--182); the event argument is not read.\<close>

definition onPointerMove :: "World \<Rightarrow> MousePosition \<Rightarrow> PointerEvent \<Rightarrow> World" where
  "onPointerMove w world event =
     (case viewportRef w of
        None \<Rightarrow> w
      | Some vp \<Rightarrow>
     (case downPosition w of
        None \<Rightarrow> w
      | Some dp \<Rightarrow>
     (case previousPosition w of
        None \<Rightarrow> w
      | Some prev \<Rightarrow>
     (case downPositionRaw w of
        None \<Rightarrow> w
      | Some raw \<Rightarrow>
          (let w1 = (if \<not> pointerMoved w \<and>
                        gt64 (add64 (abs64 (sub64 (px raw) (px world)))
                                    (abs64 (sub64 (py raw) (py world))))
                             (mul64 MINIMUM_MOVE_POSITION (scale_x vp))
                     then w\<lparr>pointerMoved := True\<rparr> else w);
               move_cell_x = of_int \<lfloor>px world / CELL_WIDTH\<rfloor>;
               move_cell_y = of_int \<lfloor>py world / CELL_HEIGHT\<rfloor>
           in if move_cell_x = px dp \<and> move_cell_y = py dp then
                (let s = \<lparr>keyboardMovePosition = \<lparr>px = px dp, py = py dp\<rparr>,
                          cursorPosition = \<lparr>px = px dp, py = py dp\<rparr>,
                          multiCursorPosition =
                            \<lparr>originPosition = \<lparr>px = px dp, py = py dp\<rparr>,
                             terminalPosition = \<lparr>px = px dp, py = py dp\<rparr>\<rparr>,
                          showMultiCursor = False,
                          showInput = False,
                          inputInitialValue = ''''\<rparr>
                 in w1\<lparr>interactionState := s,
                       calls := calls w @ [SetInteractionState s]\<rparr>)
              else
                (let originX = (if px dp < move_cell_x then px dp else move_cell_x);
                     originY = (if py dp < move_cell_y then py dp else move_cell_y);
                     termX = (if px dp > move_cell_x then px dp else move_cell_x);
                     termY = (if py dp > move_cell_y then py dp else move_cell_y);
                     hasMoved = (\<not> (px (originPosition prev) = originX \<and>
                                     py (originPosition prev) = originY \<and>
                                     px (terminalPosition prev) = termX \<and>
                                     py (terminalPosition prev) = termY))
                 in if hasMoved then
                      (let s = \<lparr>keyboardMovePosition = \<lparr>px = move_cell_x, py = move_cell_y\<rparr>,
                                cursorPosition = \<lparr>px = px dp, py = py dp\<rparr>,
                                multiCursorPosition =
                                  \<lparr>originPosition = \<lparr>px = originX, py = originY\<rparr>,
                                   terminalPosition = \<lparr>px = termX, py = termY\<rparr>\<rparr>,
                                showMultiCursor = True,
                                showInput = False,
                                inputInitialValue = ''''\<rparr>
                       in w1\<lparr>interactionState := s,
                             calls := calls w @ [SetInteractionState s],
                             viewportRef := Some (vp\<lparr>dirty := True\<rparr>),
                             previousPosition :=
                               Some \<lparr>originPosition = \<lparr>px = originX, py = originY\<rparr>,
                                     terminalPosition = \<lparr>px = termX, py = termY\<rparr>\<rparr>\<rparr>)
                    else w1))))))"

text \<open>\<^verbatim>\<open>onPointerUp\<close> (lines 184--191).\<close>

definition onPointerUp :: "World \<Rightarrow> World" where
  "onPointerUp w =
     (let w1 = (if downPosition w \<noteq> None \<and> \<not> pointerMoved w
                then (let (timeout, wh) = window_setTimeout w DOUBLE_CLICK_TIME
                      in wh\<lparr>doubleClickTimeout := Some timeout\<rparr>)
                else w)
      in w1\<lparr>downPosition := None, previousPosition := None\<rparr>)"

section \<open>Sequences of inputs\<close>

datatype input =
  PointerDown MousePosition PointerEvent
| PointerMove MousePosition PointerEvent
| PointerUp
| Elapse nat

fun step ::
  "(PointerEvent \<Rightarrow> GridInteractionState \<Rightarrow> GridInteractionState) \<Rightarrow>
   World \<Rightarrow> input \<Rightarrow> World" where
  "step odc w (PointerDown world event) = onPointerDown odc w world event"
| "step odc w (PointerMove world event) = onPointerMove w world event"
| "step odc w PointerUp = onPointerUp w"
| "step odc w (Elapse dt) = elapse dt w"

fun run ::
  "(PointerEvent \<Rightarrow> GridInteractionState \<Rightarrow> GridInteractionState) \<Rightarrow>
   World \<Rightarrow> input list \<Rightarrow> World" where
  "run odc w [] = w"
| "run odc w (i # is) = run odc (step odc w i) is"

text \<open>
  The first render: the \<^verbatim>\<open>useState\<close> cells at their initial values, no timer scheduled, the
  host's first handle is 1.
\<close>

definition mount :: "Viewport option \<Rightarrow> GridInteractionState \<Rightarrow> World" where
  "mount vp s =
     \<lparr>downPosition = None, downPositionRaw = None, previousPosition = None,
      pointerMoved = False, doubleClickTimeout = None,
      viewportRef = vp, interactionState = s,
      clock = 0, nextHandle = 1, pending = [], calls = []\<rparr>"

section \<open>Notions used in the statements\<close>

text \<open>
  The host never hands out the handle 0, so a stored handle is never falsy: the next handle
  is positive and so is the stored one.
\<close>

definition handles_ok :: "World \<Rightarrow> bool" where
  "handles_ok w =
     (0 < nextHandle w \<and> (case doubleClickTimeout w of None \<Rightarrow> True | Some h \<Rightarrow> 0 < h))"

subsection \<open>Concrete inputs\<close>

definition unitViewport :: Viewport where
  "unitViewport = \<lparr>scale_x = 1, dirty = False\<rparr>"

definition originCell :: MousePosition where
  "originCell = \<lparr>px = 0, py = 0\<rparr>"

definition restingState :: GridInteractionState where
  "restingState =
     \<lparr>keyboardMovePosition = originCell, cursorPosition = originCell,
      multiCursorPosition = \<lparr>originPosition = originCell, terminalPosition = originCell\<rparr>,
      showMultiCursor = False, showInput = False, inputInitialValue = ''''\<rparr>"

definition primaryButton :: PointerEvent where
  "primaryButton = \<lparr>button = 0, ctrlKey = False\<rparr>"

definition secondaryButton :: PointerEvent where
  "secondaryButton = \<lparr>button = 2, ctrlKey = False\<rparr>"

text \<open>A collaborator that opens the cell editor on a double click.\<close>

definition openEditor :: "PointerEvent \<Rightarrow> GridInteractionState \<Rightarrow> GridInteractionState" where
  "openEditor event s = s\<lparr>showInput := True\<rparr>"

definition point :: "number \<Rightarrow> number \<Rightarrow> MousePosition" where
  "point a b = \<lparr>px = a, py = b\<rparr>"

text \<open>One click at world (10, 10), 400 time units ago.\<close>

definition afterClick :: World where
  "afterClick =
     run openEditor (mount (Some unitViewport) restingState)
       [PointerDown (point 10 10) primaryButton, PointerUp, Elapse 400]"

text \<open>A click at world (10, 10) and, 400 time units later, one at world (500, 500).\<close>

definition twoClicks :: "input list" where
  "twoClicks =
     [PointerDown (point 10 10) primaryButton, PointerUp, Elapse 400,
      PointerDown (point 500 500) primaryButton, PointerUp]"

definition farCell :: MousePosition where
  "farCell = \<lparr>px = 5, py = 25\<rparr>"

definition farState :: GridInteractionState where
  "farState =
     restingState\<lparr>cursorPosition := farCell,
       multiCursorPosition := \<lparr>originPosition = farCell, terminalPosition = farCell\<rparr>\<rparr>"

text \<open>The state of \<open>twoClicks\<close> before its last pointer-up.\<close>

definition secondDown :: World where
  "secondDown =
     run openEditor (mount (Some unitViewport) restingState)
       [PointerDown (point 10 10) primaryButton, PointerUp, Elapse 400,
        PointerDown (point 500 500) primaryButton]"

subsection \<open>Writes and rectangles\<close>

text \<open>The calls made between the state \<open>w\<close> and a later state \<open>w'\<close>.\<close>

definition emitted :: "World \<Rightarrow> World \<Rightarrow> call list" where
  "emitted w w' = drop (length (calls w)) (calls w')"

text \<open>A rectangle is normalized when its origin is not beyond its terminal on either axis.\<close>

definition normalized :: "Rectangle \<Rightarrow> bool" where
  "normalized r =
     (px (originPosition r) \<le> px (terminalPosition r) \<and>
      py (originPosition r) \<le> py (terminalPosition r))"

fun normalizedWrite :: "call \<Rightarrow> bool" where
  "normalizedWrite (SetInteractionState s) = normalized (multiCursorPosition s)"
| "normalizedWrite (OnDoubleClickCanvas event s) = True"

text \<open>What every write of a pointer-move has in common, for the down cell \<open>dp\<close>.\<close>

fun moveWrite :: "MousePosition \<Rightarrow> call \<Rightarrow> bool" where
  "moveWrite dp (SetInteractionState s) =
     (cursorPosition s = dp \<and> \<not> showInput s \<and> inputInitialValue s = '''')"
| "moveWrite dp (OnDoubleClickCanvas event s) = False"

text \<open>A run of pointer-moves.\<close>

fun drag :: "World \<Rightarrow> (MousePosition \<times> PointerEvent) list \<Rightarrow> World" where
  "drag w [] = w"
| "drag w (m # ms) = drag (onPointerMove w (fst m) (snd m)) ms"

text \<open>
  A gesture is in progress: the four guards at the head of \<^verbatim>\<open>onPointerMove\<close>
  (lines 110--111) pass.
\<close>

definition gesture :: "World \<Rightarrow> bool" where
  "gesture w =
     (viewportRef w \<noteq> None \<and> downPosition w \<noteq> None \<and>
      previousPosition w \<noteq> None \<and> downPositionRaw w \<noteq> None)"

text \<open>
  The specification's \<^verbatim>\<open>toCell\<close>: componentwise floor division by the cell dimensions.
  The source has no such function; both handlers write the two divisions out.
\<close>

definition toCell :: "MousePosition \<Rightarrow> MousePosition" where
  "toCell world =
     \<lparr>px = of_int \<lfloor>px world / CELL_WIDTH\<rfloor>, py = of_int \<lfloor>py world / CELL_HEIGHT\<rfloor>\<rparr>"

text \<open>
  The rectangle a pointer-move at \<open>world\<close> resolves to for the down cell \<open>dp\<close>
  (lines 123--124 and 144--147).
\<close>

definition resolvedRectangle :: "MousePosition \<Rightarrow> MousePosition \<Rightarrow> Rectangle" where
  "resolvedRectangle dp world =
     (let move_cell_x = of_int \<lfloor>px world / CELL_WIDTH\<rfloor>;
          move_cell_y = of_int \<lfloor>py world / CELL_HEIGHT\<rfloor>;
          originX = (if px dp < move_cell_x then px dp else move_cell_x);
          originY = (if py dp < move_cell_y then py dp else move_cell_y);
          termX = (if px dp > move_cell_x then px dp else move_cell_x);
          termY = (if py dp > move_cell_y then py dp else move_cell_y)
      in \<lparr>originPosition = \<lparr>px = originX, py = originY\<rparr>,
          terminalPosition = \<lparr>px = termX, py = termY\<rparr>\<rparr>)"

text \<open>
  The specification's normalized rectangle of two cells: the per-axis minimum as origin, the
  per-axis maximum as terminal.
\<close>

definition cellRectangle :: "MousePosition \<Rightarrow> MousePosition \<Rightarrow> Rectangle" where
  "cellRectangle a b =
     \<lparr>originPosition = \<lparr>px = min (px a) (px b), py = min (py a) (py b)\<rparr>,
      terminalPosition = \<lparr>px = max (px a) (px b), py = max (py a) (py b)\<rparr>\<rparr>"

subsection \<open>More concrete inputs\<close>

definition cell :: "number \<Rightarrow> number \<Rightarrow> MousePosition" where
  "cell a b = \<lparr>px = a, py = b\<rparr>"

text \<open>The state a multi-cell drag writes, and the one a move inside the down cell writes.\<close>

definition selection ::
  "MousePosition \<Rightarrow> MousePosition \<Rightarrow> MousePosition \<Rightarrow> MousePosition \<Rightarrow> GridInteractionState" where
  "selection k c a b =
     \<lparr>keyboardMovePosition = k, cursorPosition = c,
      multiCursorPosition = \<lparr>originPosition = a, terminalPosition = b\<rparr>,
      showMultiCursor = True, showInput = False, inputInitialValue = ''''\<rparr>"

definition singleCell :: "MousePosition \<Rightarrow> GridInteractionState" where
  "singleCell c =
     \<lparr>keyboardMovePosition = c, cursorPosition = c,
      multiCursorPosition = \<lparr>originPosition = c, terminalPosition = c\<rparr>,
      showMultiCursor = False, showInput = False, inputInitialValue = ''''\<rparr>"

text \<open>A press at world (250, 45), cell (2, 2), and a drag from there up and to the left.\<close>

definition pressed :: World where
  "pressed =
     onPointerDown openEditor (mount (Some unitViewport) restingState) (point 250 45) primaryButton"

definition dragUpLeft :: "input list" where
  "dragUpLeft =
     [PointerDown (point 250 45) primaryButton,
      PointerMove (point 150 25) primaryButton,
      PointerMove (point 50 5) primaryButton]"

subsection \<open>Right clicks\<close>

text \<open>The classification of line 65 and the bounds test of lines 71--74.\<close>

definition isRightClick :: "PointerEvent \<Rightarrow> bool" where
  "isRightClick event = (button event = 2 \<or> (button event = 0 \<and> ctrlKey event))"

definition insideSelection :: "Rectangle \<Rightarrow> MousePosition \<Rightarrow> bool" where
  "insideSelection r c =
     (px c \<ge> px (originPosition r) \<and> px c \<le> px (terminalPosition r) \<and>
      py c \<ge> py (originPosition r) \<and> py c \<le> py (terminalPosition r))"

text \<open>A first render with the cells (0, 0) to (1, 1) selected.\<close>

definition selected :: World where
  "selected = mount (Some unitViewport) (selection (cell 1 1) (cell 0 0) (cell 0 0) (cell 1 1))"

text \<open>
  A second press at world (501, 500) while the press of \<open>secondDown\<close> at (500, 500) has not
  been released.
\<close>

definition overlappingPress :: World where
  "overlappingPress = onPointerDown openEditor secondDown (point 501 500) primaryButton"

subsection \<open>The threshold tests\<close>

text \<open>
  \<^verbatim>\<open>Math.abs(a.x - b.x) + Math.abs(a.y - b.y)\<close> as binary64 evaluates it: the left-hand side
  of the tests of lines 47 and 116.
\<close>

definition manhattan64 :: "MousePosition \<Rightarrow> MousePosition \<Rightarrow> float64" where
  "manhattan64 a b = add64 (abs64 (sub64 (px a) (px b))) (abs64 (sub64 (py a) (py b)))"

text \<open>Viewports at the scales written \<^verbatim>\<open>0.1\<close> and \<^verbatim>\<open>0.3\<close>, as the doubles they are.\<close>

definition tenthViewport :: Viewport where
  "tenthViewport = \<lparr>scale_x = 3602879701896397 / 2 ^ 55, dirty = False\<rparr>"

definition threeTenthsViewport :: Viewport where
  "threeTenthsViewport = \<lparr>scale_x = 5404319552844595 / 2 ^ 54, dirty = False\<rparr>"

text \<open>The two clicks of \<open>twoClicks\<close> and 100 more time units: the first timer has fired.\<close>

definition staleCleared :: World where
  "staleCleared =
     run openEditor (mount (Some unitViewport) restingState) (twoClicks @ [Elapse 100])"

text \<open>A press at world (0, 0) with the scale \<^verbatim>\<open>0.3\<close>.\<close>

definition pressedZoomed :: World where
  "pressedZoomed =
     onPointerDown openEditor (mount (Some threeTenthsViewport) restingState) (point 0 0)
       primaryButton"

section \<open>Basic facts\<close>

lemmas handler_defs =
  isDoubleClick_def onPointerDown_def onPointerMove_def onPointerUp_def
  window_setTimeout_def elapse_def truthy_def sub64_def mul64_def gt64_def

lemmas constant_defs =
  MINIMUM_MOVE_POSITION_def DOUBLE_CLICK_TIME_def CELL_WIDTH_def CELL_HEIGHT_def
  sub64_def mul64_def gt64_def

lemmas demo_defs =
  unitViewport_def originCell_def restingState_def primaryButton_def secondaryButton_def
  openEditor_def point_def mount_def

lemma run_append: "run odc w (is @ js) = run odc (run odc w is) js"
  by (induction "is" arbitrary: w) simp_all

subsection \<open>Binary64: integers below \<open>2 ^ 53\<close> are exact\<close>

lemma bitLength_le: "k < 2 ^ n \<Longrightarrow> bitLength k \<le> n"
proof (induction n arbitrary: k)
  case 0
  then show ?case by (simp add: bitLength.simps)
next
  case (Suc n)
  show ?case
  proof (cases "k \<le> 0")
    case True
    then show ?thesis by (simp add: bitLength.simps)
  next
    case False
    from Suc.prems have "k div 2 < 2 ^ n" by simp
    then have "bitLength (k div 2) \<le> n" by (rule Suc.IH)
    with False show ?thesis by (simp add: bitLength.simps [of k])
  qed
qed

lemma bitLength_pos: "0 < k \<Longrightarrow> 0 < bitLength k"
  by (simp add: bitLength.simps [of k])

lemma roundEven_of_int [simp]: "roundEven (of_int j) = j"
  by (simp add: roundEven_def)

lemma round64_of_int:
  assumes "\<bar>k\<bar> < 2 ^ 53"
  shows "round64 (of_int k) = Fin (of_int k)"
proof (cases "k = 0")
  case True
  then show ?thesis by (simp add: round64_def)
next
  case False
  define b where "b = bitLength \<bar>k\<bar>"
  have b: "0 < b" "b \<le> 53"
    using False assms by (simp_all add: b_def bitLength_pos bitLength_le)
  have e: "exponent (of_int k) = int b - 1"
  proof -
    have "\<bar>real_of_int k\<bar> = of_int \<bar>k\<bar>" by simp
    moreover have "1 \<le> \<bar>k\<bar>" using False by simp
    then have "(1::real) \<le> of_int \<bar>k\<bar>" by linarith
    ultimately show ?thesis
      unfolding exponent_def b_def by (simp only: if_True floor_of_int)
  qed
  define n where "n = 53 - b"
  have q: "max (exponent (of_int k) - 52) (- 1074) = - int n"
    using b by (simp add: e n_def)
  have scaled: "real_of_int k / 2 powi (- int n) = of_int (k * 2 ^ n)"
    by (simp add: power_int_minus field_simps)
  have unscaled: "real_of_int (k * 2 ^ n) * 2 powi (- int n) = of_int k"
    by (simp add: power_int_minus field_simps)
  have small: "\<not> real_of_int k \<ge> 2 ^ 1024" "\<not> real_of_int k \<le> - (2 ^ 1024)"
  proof -
    have "\<bar>real_of_int k\<bar> < 2 ^ 53"
      using assms by (metis of_int_abs of_int_less_numeral_power_cancel_iff)
    moreover have "(2::real) ^ 53 \<le> 2 ^ 1024" by simp
    ultimately show "\<not> real_of_int k \<ge> 2 ^ 1024" "\<not> real_of_int k \<le> - (2 ^ 1024)"
      by linarith+
  qed
  show ?thesis
    using False small
    by (simp add: round64_def Let_def q scaled unscaled del: of_int_mult of_int_power)
qed

lemma round64_numeral [simp]:
  "numeral n < (2::int) ^ 53 \<Longrightarrow> round64 (numeral n) = Fin (numeral n)"
  using round64_of_int [of "numeral n"] by simp

lemma round64_neg_numeral [simp]:
  "numeral n < (2::int) ^ 53 \<Longrightarrow> round64 (- numeral n) = Fin (- numeral n)"
  using round64_of_int [of "- numeral n"] by simp

lemma round64_0 [simp]: "round64 0 = Fin 0"
  by (simp add: round64_def)

lemma round64_1 [simp]: "round64 1 = Fin 1"
  using round64_of_int [of 1] by simp

lemma round64_neg_1 [simp]: "round64 (- 1) = Fin (- 1)"
  using round64_of_int [of "- 1"] by simp

text \<open>
  Two decimal fractions and their products by 5: \<^verbatim>\<open>5 * 0.1 === 0.5\<close> and
  \<^verbatim>\<open>5 * 0.3 === 1.5\<close> in binary64, although the doubles written \<^verbatim>\<open>0.1\<close> and \<^verbatim>\<open>0.3\<close>
  are not the tenth and three tenths.
\<close>

lemma round64_examples:
  "round64 (1 / 10) = Fin (3602879701896397 / 2 ^ 55)"
  "mul64 5 (3602879701896397 / 2 ^ 55) = Fin (1 / 2)"
  "round64 (3 / 10) = Fin (5404319552844595 / 2 ^ 54)"
  "mul64 5 (5404319552844595 / 2 ^ 54) = Fin (3 / 2)"
  "round64 (1 / 2) = Fin (1 / 2)"
  "round64 (3 / 2) = Fin (3 / 2)"
  by (simp_all add: mul64_def round64_def exponent_def roundEven_def bitLength.simps Let_def)

subsection \<open>Handles are never falsy\<close>

lemma handles_ok_mount: "handles_ok (mount vp s)"
  by (simp add: handles_ok_def mount_def)

lemma handles_ok_step: "handles_ok w \<Longrightarrow> handles_ok (step odc w i)"
  by (cases i)
     (auto simp: handles_ok_def handler_defs Let_def split: option.splits if_splits)

lemma handles_ok_run: "handles_ok w \<Longrightarrow> handles_ok (run odc w is)"
  by (induction "is" arbitrary: w) (simp_all add: handles_ok_step)

subsection \<open>The timer queue under each handler\<close>

lemma pending_onPointerDown [simp]:
  "pending (onPointerDown odc w world event) = pending w"
  "clock (onPointerDown odc w world event) = clock w"
  by (simp_all add: onPointerDown_def isDoubleClick_def Let_def split: option.splits)

lemma pending_onPointerMove [simp]:
  "pending (onPointerMove w world event) = pending w"
  "clock (onPointerMove w world event) = clock w"
  by (simp_all add: onPointerMove_def Let_def split: option.splits)

lemma pending_onPointerUp:
  "pending (onPointerUp w) =
     (if downPosition w \<noteq> None \<and> \<not> pointerMoved w
      then pending w @ [(nextHandle w, clock w + DOUBLE_CLICK_TIME)] else pending w)"
  "clock (onPointerUp w) = clock w"
  by (simp_all add: onPointerUp_def window_setTimeout_def Let_def)

lemma doubleClickTimeout_onPointerUp:
  "doubleClickTimeout (onPointerUp w) =
     (if downPosition w \<noteq> None \<and> \<not> pointerMoved w
      then Some (nextHandle w) else doubleClickTimeout w)"
  by (simp add: onPointerUp_def window_setTimeout_def Let_def)

subsection \<open>Records, compared by their fields\<close>

lemma MousePosition_eta [simp]: "\<lparr>px = px p, py = py p\<rparr> = (p :: MousePosition)"
  by simp

lemma MousePosition_eq_iff: "(p :: MousePosition) = q \<longleftrightarrow> px p = px q \<and> py p = py q"
  by (cases p, cases q) simp

lemma Rectangle_eq_iff:
  "(r :: Rectangle) = q \<longleftrightarrow>
     originPosition r = originPosition q \<and> terminalPosition r = terminalPosition q"
  by (cases r, cases q) simp

lemma move_cell_eq:
  "(of_int \<lfloor>px world / CELL_WIDTH\<rfloor> = px dp \<and> of_int \<lfloor>py world / CELL_HEIGHT\<rfloor> = py dp)
     = (toCell world = dp)"
  by (auto simp: toCell_def MousePosition_eq_iff)

subsection \<open>What a pointer-move keeps\<close>

lemma onPointerMove_keeps:
  "downPosition (onPointerMove w world event) = downPosition w"
  "downPositionRaw (onPointerMove w world event) = downPositionRaw w"
  "doubleClickTimeout (onPointerMove w world event) = doubleClickTimeout w"
  "nextHandle (onPointerMove w world event) = nextHandle w"
  "map_option scale_x (viewportRef (onPointerMove w world event)) = map_option scale_x (viewportRef w)"
  "(previousPosition (onPointerMove w world event) = None) = (previousPosition w = None)"
  "pointerMoved w \<Longrightarrow> pointerMoved (onPointerMove w world event)"
  by (simp_all add: onPointerMove_def Let_def split: option.splits)

lemma drag_keeps:
  "downPosition (drag w ms) = downPosition w"
  "downPositionRaw (drag w ms) = downPositionRaw w"
  "doubleClickTimeout (drag w ms) = doubleClickTimeout w"
  "nextHandle (drag w ms) = nextHandle w"
  "pending (drag w ms) = pending w"
  "clock (drag w ms) = clock w"
  "map_option scale_x (viewportRef (drag w ms)) = map_option scale_x (viewportRef w)"
  "(previousPosition (drag w ms) = None) = (previousPosition w = None)"
  by (induction ms arbitrary: w) (simp_all add: onPointerMove_keeps)

lemma drag_pointerMoved: "pointerMoved w \<Longrightarrow> pointerMoved (drag w ms)"
  by (induction ms arbitrary: w) (simp_all add: onPointerMove_keeps)

lemma gestureE:
  assumes "gesture w"
  obtains vp dp prev raw where "viewportRef w = Some vp" "downPosition w = Some dp"
    "previousPosition w = Some prev" "downPositionRaw w = Some raw"
  using assms by (auto simp: gesture_def)

subsection \<open>The concrete states, evaluated\<close>

lemma afterClick_eq:
  "afterClick =
     \<lparr>downPosition = None, downPositionRaw = Some (point 10 10), previousPosition = None,
      pointerMoved = False, doubleClickTimeout = Some 1,
      viewportRef = Some unitViewport,
      interactionState = restingState,
      clock = 400, nextHandle = 2, pending = [(1, 500)],
      calls = [SetInteractionState restingState]\<rparr>"
  by (simp add: afterClick_def demo_defs handler_defs constant_defs Let_def)

lemma secondDown_eq:
  "secondDown =
     \<lparr>downPosition = Some farCell, downPositionRaw = Some (point 500 500),
      previousPosition = Some \<lparr>originPosition = farCell, terminalPosition = farCell\<rparr>,
      pointerMoved = False, doubleClickTimeout = Some 1,
      viewportRef = Some unitViewport,
      interactionState = farState,
      clock = 400, nextHandle = 2, pending = [(1, 500)],
      calls = [SetInteractionState restingState, SetInteractionState farState]\<rparr>"
  by (simp add: secondDown_def farState_def farCell_def demo_defs handler_defs constant_defs Let_def)

lemma twoClicks_eq:
  "run openEditor (mount (Some unitViewport) restingState) twoClicks = onPointerUp secondDown"
  by (simp add: twoClicks_def secondDown_def)

lemma staleCleared_eq:
  "staleCleared =
     \<lparr>downPosition = None, downPositionRaw = Some (point 500 500), previousPosition = None,
      pointerMoved = False, doubleClickTimeout = None,
      viewportRef = Some unitViewport,
      interactionState = farState,
      clock = 500, nextHandle = 3, pending = [(2, 900)],
      calls = [SetInteractionState restingState, SetInteractionState farState]\<rparr>"
  by (simp add: staleCleared_def run_append twoClicks_eq secondDown_eq onPointerUp_def
        window_setTimeout_def elapse_def DOUBLE_CLICK_TIME_def Let_def)

lemma pressed_eq:
  "pressed =
     \<lparr>downPosition = Some (cell 2 2), downPositionRaw = Some (point 250 45),
      previousPosition = Some \<lparr>originPosition = cell 2 2, terminalPosition = cell 2 2\<rparr>,
      pointerMoved = False, doubleClickTimeout = None,
      viewportRef = Some unitViewport,
      interactionState =
        restingState\<lparr>cursorPosition := cell 2 2,
          multiCursorPosition := \<lparr>originPosition = cell 2 2, terminalPosition = cell 2 2\<rparr>\<rparr>,
      clock = 0, nextHandle = 1, pending = [],
      calls =
        [SetInteractionState
           (restingState\<lparr>cursorPosition := cell 2 2,
              multiCursorPosition := \<lparr>originPosition = cell 2 2, terminalPosition = cell 2 2\<rparr>\<rparr>)]\<rparr>"
  by (simp add: pressed_def cell_def demo_defs handler_defs constant_defs Let_def)

lemma pressed_move:
  "onPointerMove pressed (point 150 25) primaryButton =
     pressed\<lparr>pointerMoved := True,
       interactionState := selection (cell 1 1) (cell 2 2) (cell 1 1) (cell 2 2),
       calls := calls pressed @
         [SetInteractionState (selection (cell 1 1) (cell 2 2) (cell 1 1) (cell 2 2))],
       viewportRef := Some (unitViewport\<lparr>dirty := True\<rparr>),
       previousPosition := Some \<lparr>originPosition = cell 1 1, terminalPosition = cell 2 2\<rparr>\<rparr>"
  by (simp add: pressed_eq selection_def cell_def point_def unitViewport_def
        onPointerMove_def constant_defs Let_def)

lemma dragUpLeft_calls:
  "calls (run openEditor (mount (Some unitViewport) restingState) dragUpLeft) =
     [SetInteractionState
        (restingState\<lparr>cursorPosition := cell 2 2,
           multiCursorPosition := \<lparr>originPosition = cell 2 2, terminalPosition = cell 2 2\<rparr>\<rparr>),
      SetInteractionState (selection (cell 1 1) (cell 2 2) (cell 1 1) (cell 2 2)),
      SetInteractionState (selection (cell 0 0) (cell 2 2) (cell 0 0) (cell 2 2))]"
  by (simp add: dragUpLeft_def selection_def cell_def demo_defs handler_defs constant_defs Let_def)

lemma pressed_move_again:
  "onPointerMove (onPointerMove pressed (point 150 25) primaryButton) (point 160 30) primaryButton
     = onPointerMove pressed (point 150 25) primaryButton"
  by (simp add: pressed_move)
     (simp add: pressed_eq selection_def cell_def point_def unitViewport_def
        onPointerMove_def constant_defs Let_def)

lemma pressed_far_move:
  "onPointerMove pressed (point 500 45) primaryButton =
     pressed\<lparr>pointerMoved := True,
       interactionState := selection (cell 5 2) (cell 2 2) (cell 2 2) (cell 5 2),
       calls := calls pressed @
         [SetInteractionState (selection (cell 5 2) (cell 2 2) (cell 2 2) (cell 5 2))],
       viewportRef := Some (unitViewport\<lparr>dirty := True\<rparr>),
       previousPosition := Some \<lparr>originPosition = cell 2 2, terminalPosition = cell 5 2\<rparr>\<rparr>"
  by (simp add: pressed_eq selection_def cell_def point_def unitViewport_def
        onPointerMove_def constant_defs Let_def)

lemma pressedZoomed_eq:
  "pressedZoomed =
     \<lparr>downPosition = Some (cell 0 0), downPositionRaw = Some (point 0 0),
      previousPosition = Some \<lparr>originPosition = cell 0 0, terminalPosition = cell 0 0\<rparr>,
      pointerMoved = False, doubleClickTimeout = None,
      viewportRef = Some threeTenthsViewport,
      interactionState =
        restingState\<lparr>cursorPosition := cell 0 0,
          multiCursorPosition := \<lparr>originPosition = cell 0 0, terminalPosition = cell 0 0\<rparr>\<rparr>,
      clock = 0, nextHandle = 1, pending = [],
      calls =
        [SetInteractionState
           (restingState\<lparr>cursorPosition := cell 0 0,
              multiCursorPosition := \<lparr>originPosition = cell 0 0, terminalPosition = cell 0 0\<rparr>\<rparr>)]\<rparr>"
  by (simp add: pressedZoomed_def cell_def demo_defs isDoubleClick_def onPointerDown_def
        CELL_WIDTH_def CELL_HEIGHT_def Let_def)

lemma zoomedMove_eq:
  "onPointerMove pressedZoomed (point (3 / 2) 0) primaryButton =
     pressedZoomed\<lparr>interactionState := singleCell (cell 0 0),
       calls := calls pressedZoomed @ [SetInteractionState (singleCell (cell 0 0))]\<rparr>"
proof -
  have thr: "mul64 MINIMUM_MOVE_POSITION (scale_x threeTenthsViewport) = Fin (3 / 2)"
    unfolding threeTenthsViewport_def MINIMUM_MOVE_POSITION_def
    by (simp only: Viewport.select_convs round64_examples)
  have dist: "add64 (abs64 (sub64 (px (point 0 0)) (px (point (3 / 2) 0))))
      (abs64 (sub64 (py (point 0 0)) (py (point (3 / 2) 0)))) = Fin (3 / 2)"
    by (simp add: point_def sub64_def round64_def exponent_def roundEven_def
          bitLength.simps Let_def)
  show ?thesis
    unfolding onPointerMove_def
    by (simp add: pressedZoomed_eq thr dist gt64_def Let_def)
       (simp add: point_def cell_def singleCell_def CELL_WIDTH_def CELL_HEIGHT_def)
qed

lemma selected_eq:
  "selected =
     \<lparr>downPosition = None, downPositionRaw = None, previousPosition = None,
      pointerMoved = False, doubleClickTimeout = None,
      viewportRef = Some unitViewport,
      interactionState = selection (cell 1 1) (cell 0 0) (cell 0 0) (cell 1 1),
      clock = 0, nextHandle = 1, pending = [], calls = []\<rparr>"
  by (simp add: selected_def mount_def)

lemma overlappingPress_eq:
  "overlappingPress =
     secondDown\<lparr>doubleClickTimeout := None,
       interactionState := openEditor primaryButton farState,
       calls := calls secondDown @ [OnDoubleClickCanvas primaryButton farState]\<rparr>"
  by (simp add: overlappingPress_def secondDown_eq onPointerDown_def isDoubleClick_def truthy_def
        primaryButton_def point_def unitViewport_def MINIMUM_MOVE_POSITION_def sub64_def mul64_def gt64_def)

section \<open>The double-click test\<close>

text \<open>
  Claim C1, as stated, fails where it takes the window to be armed as long as a timer
  handle is pending. After a click at (10, 10), a click at (500, 500) 400 time units later
  and 100 more time units, a primary press at (500, 500) meets every condition of the
  claim: a raw down position is stored, the viewport is available, the timer 2 is pending
  until 900, nothing has moved and the distance is 0. But the older timer has fired and
  cleared the stored handle, and \<^verbatim>\<open>isDoubleClick\<close> returns false.
\<close>

theorem cleared_handle_counterexample:
  "button primaryButton = 0 \<and>
   downPositionRaw staleCleared = Some (point 500 500) \<and>
   viewportRef staleCleared = Some unitViewport \<and>
   clock staleCleared = 500 \<and> pending staleCleared = [(2, 900)] \<and>
   \<not> pointerMoved staleCleared \<and>
   \<bar>px (point 500 500) - px (point 500 500)\<bar> + \<bar>py (point 500 500) - py (point 500 500)\<bar>
     < 5 * scale_x unitViewport \<and>
   \<not> fst (isDoubleClick openEditor staleCleared (point 500 500) primaryButton)"
  by (simp add: staleCleared_eq isDoubleClick_def truthy_def primaryButton_def unitViewport_def)

text \<open>
  Claim C1, amended. \<^verbatim>\<open>isDoubleClick(world, event)\<close> returns true, and calls the double-click
  handler \<^verbatim>\<open>onDoubleClickCanvas\<close> with the event and the current interaction state, exactly
  when the button is the primary one (0), a raw down position is stored, the viewport is
  available, a timer handle is stored in \<^verbatim>\<open>doubleClickTimeout\<close> (a timer that is still
  pending does not count once its handle has been cleared), the pointer has not moved since
  the paired pointer-down, and the Manhattan distance between the stored raw down position
  and the new world position, computed in binary64, is strictly below 5 times the
  viewport's horizontal scale, computed in binary64. In every other case it returns false
  and changes nothing. A handle is stored as soon as \<^verbatim>\<open>doubleClickTimeout\<close> is defined: the
  host never hands out the falsy handle 0 (\<open>handles_ok\<close>, which holds in every state
  reached from the first render). Where the subtractions, the sum and the product are exact,
  the binary64 test is the test \<open>\<bar>dx\<bar> + \<bar>dy\<bar> < 5 * scale\<close> of the real numbers.
\<close>

theorem isDoubleClick_iff:
  "(fst (isDoubleClick odc w world event) \<longleftrightarrow>
      (button event = 0 \<and> truthy (doubleClickTimeout w) \<and> \<not> pointerMoved w \<and>
       (\<exists>raw vp. downPositionRaw w = Some raw \<and> viewportRef w = Some vp \<and>
          lt64 (manhattan64 raw world) (mul64 5 (scale_x vp))))) \<and>
   (handles_ok w \<longrightarrow> truthy (doubleClickTimeout w) = (doubleClickTimeout w \<noteq> None)) \<and>
   (sub64 (px raw) (px world) = Fin (px raw - px world) \<and>
    sub64 (py raw) (py world) = Fin (py raw - py world) \<and>
    round64 (\<bar>px raw - px world\<bar> + \<bar>py raw - py world\<bar>) =
      Fin (\<bar>px raw - px world\<bar> + \<bar>py raw - py world\<bar>) \<and>
    mul64 5 s = Fin (5 * s) \<longrightarrow>
      lt64 (manhattan64 raw world) (mul64 5 s) =
        (\<bar>px raw - px world\<bar> + \<bar>py raw - py world\<bar> < 5 * s)) \<and>
   (fst (isDoubleClick odc w world event) \<longrightarrow>
      calls (snd (isDoubleClick odc w world event)) =
        calls w @ [OnDoubleClickCanvas event (interactionState w)]) \<and>
   (\<not> fst (isDoubleClick odc w world event) \<longrightarrow>
      snd (isDoubleClick odc w world event) = w)"
proof -
  have test: "fst (isDoubleClick odc w world event) \<longleftrightarrow>
      (button event = 0 \<and> truthy (doubleClickTimeout w) \<and> \<not> pointerMoved w \<and>
       (\<exists>raw vp. downPositionRaw w = Some raw \<and> viewportRef w = Some vp \<and>
          lt64 (manhattan64 raw world) (mul64 5 (scale_x vp))))"
    by (auto simp: isDoubleClick_def manhattan64_def MINIMUM_MOVE_POSITION_def
             split: option.splits)
  have stored: "truthy (doubleClickTimeout w) = (doubleClickTimeout w \<noteq> None)"
    if "handles_ok w"
    using that by (auto simp: handles_ok_def truthy_def split: option.splits)
  have exact: "lt64 (manhattan64 raw world) (mul64 5 s) =
        (\<bar>px raw - px world\<bar> + \<bar>py raw - py world\<bar> < 5 * s)"
    if "sub64 (px raw) (px world) = Fin (px raw - px world)"
      "sub64 (py raw) (py world) = Fin (py raw - py world)"
      "round64 (\<bar>px raw - px world\<bar> + \<bar>py raw - py world\<bar>) =
        Fin (\<bar>px raw - px world\<bar> + \<bar>py raw - py world\<bar>)"
      "mul64 5 s = Fin (5 * s)"
    using that by (simp add: manhattan64_def)
  have effect: "calls (snd (isDoubleClick odc w world event)) =
        calls w @ [OnDoubleClickCanvas event (interactionState w)]"
    if "fst (isDoubleClick odc w world event)"
    using that by (auto simp: isDoubleClick_def split: option.splits if_splits)
  have unchanged: "snd (isDoubleClick odc w world event) = w"
    if "\<not> fst (isDoubleClick odc w world event)"
    using that by (auto simp: isDoubleClick_def split: option.splits if_splits)
  show ?thesis
    apply (intro conjI impI)
        apply (rule test)
       apply (erule stored)
      apply (elim conjE, erule (3) exact)
     apply (erule effect)
    apply (rule unchanged, assumption)
    done
qed

text \<open>
  After one click at (10, 10) with scale 1: a press at (12, 11), at distance 3, is a double
  click; a press at (13, 12), at distance 5, is not. With the scale \<^verbatim>\<open>0.1\<close> a press at
  distance \<^verbatim>\<open>0.5\<close> is not one either: \<^verbatim>\<open>5 * 0.1 === 0.5\<close> in binary64, although the double
  \<^verbatim>\<open>0.1\<close> is above the tenth.
\<close>

theorem isDoubleClick_iff_witness:
  "handles_ok afterClick \<and> doubleClickTimeout afterClick \<noteq> None \<and>
   fst (isDoubleClick openEditor afterClick (point 12 11) primaryButton) \<and>
   calls (snd (isDoubleClick openEditor afterClick (point 12 11) primaryButton)) =
     [SetInteractionState restingState, OnDoubleClickCanvas primaryButton restingState] \<and>
   lt64 (manhattan64 (point 10 10) (point 12 11)) (mul64 5 1) =
     (\<bar>px (point 10 10) - px (point 12 11)\<bar> + \<bar>py (point 10 10) - py (point 12 11)\<bar> < 5 * 1) \<and>
   \<not> fst (isDoubleClick openEditor afterClick (point 13 12) primaryButton) \<and>
   snd (isDoubleClick openEditor afterClick (point 13 12) primaryButton) = afterClick \<and>
   \<bar>px (point 10 10) - px (point (21 / 2) 10)\<bar> + \<bar>py (point 10 10) - py (point (21 / 2) 10)\<bar>
     < 5 * scale_x tenthViewport \<and>
   \<not> fst (isDoubleClick openEditor (afterClick\<lparr>viewportRef := Some tenthViewport\<rparr>)
          (point (21 / 2) 10) primaryButton)"
proof -
  have exact: "sub64 (px (point 10 10)) (px (point 12 11)) =
      Fin (px (point 10 10) - px (point 12 11))"
    "sub64 (py (point 10 10)) (py (point 12 11)) = Fin (py (point 10 10) - py (point 12 11))"
    "round64 (\<bar>px (point 10 10) - px (point 12 11)\<bar> + \<bar>py (point 10 10) - py (point 12 11)\<bar>) =
      Fin (\<bar>px (point 10 10) - px (point 12 11)\<bar> + \<bar>py (point 10 10) - py (point 12 11)\<bar>)"
    "mul64 5 1 = Fin (5 * 1)"
    by (simp_all add: point_def sub64_def mul64_def)
  have half: "manhattan64 (point 10 10) (point (21 / 2) 10) = Fin (1 / 2)"
    by (simp add: manhattan64_def point_def sub64_def round64_def exponent_def roundEven_def
          bitLength.simps Let_def)
  have thr: "mul64 5 (scale_x tenthViewport) = Fin (1 / 2)"
    unfolding tenthViewport_def by (simp only: Viewport.select_convs round64_examples)
  have zoomed: "\<bar>px (point 10 10) - px (point (21 / 2) 10)\<bar> +
      \<bar>py (point 10 10) - py (point (21 / 2) 10)\<bar> < 5 * scale_x tenthViewport"
    by (simp add: point_def tenthViewport_def)
  from isDoubleClick_iff
         [of openEditor "afterClick\<lparr>viewportRef := Some tenthViewport\<rparr>" "point (21 / 2) 10"
             primaryButton]
  have third: "\<not> fst (isDoubleClick openEditor (afterClick\<lparr>viewportRef := Some tenthViewport\<rparr>)
          (point (21 / 2) 10) primaryButton)"
    by (simp add: afterClick_eq half thr truthy_def primaryButton_def)
  from isDoubleClick_iff [of openEditor afterClick "point 12 11" primaryButton
         "point 10 10" 1]
       exact
  have first: "handles_ok afterClick \<and> doubleClickTimeout afterClick \<noteq> None \<and>
      fst (isDoubleClick openEditor afterClick (point 12 11) primaryButton) \<and>
      calls (snd (isDoubleClick openEditor afterClick (point 12 11) primaryButton)) =
        [SetInteractionState restingState, OnDoubleClickCanvas primaryButton restingState] \<and>
      lt64 (manhattan64 (point 10 10) (point 12 11)) (mul64 5 1) =
        (\<bar>px (point 10 10) - px (point 12 11)\<bar> + \<bar>py (point 10 10) - py (point 12 11)\<bar> < 5 * 1)"
    by (simp add: afterClick_eq handles_ok_def unitViewport_def primaryButton_def
          manhattan64_def point_def sub64_def mul64_def)
  from isDoubleClick_iff [of openEditor afterClick "point 13 12" primaryButton]
  have second: "\<not> fst (isDoubleClick openEditor afterClick (point 13 12) primaryButton) \<and>
      snd (isDoubleClick openEditor afterClick (point 13 12) primaryButton) = afterClick"
    by (simp add: afterClick_eq handles_ok_def unitViewport_def primaryButton_def
          manhattan64_def point_def sub64_def mul64_def)
  from first second zoomed third show ?thesis by blast
qed

section \<open>The expiry timers\<close>

text \<open>
  Claim C2, as stated, fails: at most one expiry timer would be pending at a time. After a
  click at (10, 10) and, 400 time units later, a click at (500, 500), two timers are pending,
  with deadlines 500 and 900. When 100 more time units have passed the first one fires and
  clears the handle stored for the second, whose window is open until 900.
\<close>

theorem stale_timer_counterexample:
  "pending (run openEditor (mount (Some unitViewport) restingState) twoClicks) =
     [(1, 500), (2, 900)] \<and>
   doubleClickTimeout (run openEditor (mount (Some unitViewport) restingState) twoClicks) =
     Some 2 \<and>
   pending (run openEditor (mount (Some unitViewport) restingState) (twoClicks @ [Elapse 100])) =
     [(2, 900)] \<and>
   doubleClickTimeout
     (run openEditor (mount (Some unitViewport) restingState) (twoClicks @ [Elapse 100])) = None"
  by (simp add: run_append twoClicks_eq secondDown_eq onPointerUp_def window_setTimeout_def
        elapse_def DOUBLE_CLICK_TIME_def Let_def)

text \<open>
  Claim C2, amended. When \<^verbatim>\<open>onPointerUp\<close> schedules a timer it stores the new handle over the
  old one and cancels nothing: the timers that were pending stay pending and the new one,
  due in 500 time units, is queued behind them. No input cancels a timer: a timer whose
  deadline is not reached is still pending after every input.
\<close>

theorem onPointerUp_overwrites_handle:
  "(downPosition w \<noteq> None \<and> \<not> pointerMoved w \<longrightarrow>
      pending (onPointerUp w) = pending w @ [(nextHandle w, clock w + DOUBLE_CLICK_TIME)] \<and>
      doubleClickTimeout (onPointerUp w) = Some (nextHandle w)) \<and>
   (\<forall>t \<in> set (pending w).
      clock (step odc w i) < snd t \<longrightarrow> t \<in> set (pending (step odc w i)))"
proof (intro conjI impI ballI)
  fix t assume t: "t \<in> set (pending w)" and live: "clock (step odc w i) < snd t"
  show "t \<in> set (pending (step odc w i))"
  proof (cases i)
    case (Elapse dt)
    with t live show ?thesis by (simp add: elapse_def Let_def)
  qed (use t in \<open>simp_all add: pending_onPointerUp\<close>)
qed (simp_all add: pending_onPointerUp doubleClickTimeout_onPointerUp)

theorem onPointerUp_overwrites_handle_witness:
  "downPosition secondDown \<noteq> None \<and> \<not> pointerMoved secondDown \<and>
   pending secondDown = [(1, 500)] \<and>
   pending (onPointerUp secondDown) = [(1, 500), (2, 900)] \<and>
   doubleClickTimeout (onPointerUp secondDown) = Some 2 \<and>
   (1, 500) \<in> set (pending (step openEditor secondDown PointerUp))"
  using onPointerUp_overwrites_handle [of secondDown openEditor PointerUp]
  by (simp add: secondDown_eq DOUBLE_CLICK_TIME_def)

section \<open>The selection rectangle\<close>

lemma calls_step_normalized:
  "\<exists>new. calls (step odc w i) = calls w @ new \<and> list_all normalizedWrite new"
proof (cases i)
  case (PointerDown world event)
  then show ?thesis
    by (simp add: onPointerDown_def isDoubleClick_def Let_def normalized_def split: option.splits)
next
  case (PointerMove world event)
  then show ?thesis
    by (simp add: onPointerMove_def Let_def normalized_def split: option.splits)
next
  case PointerUp
  then show ?thesis by (simp add: onPointerUp_def window_setTimeout_def Let_def)
next
  case (Elapse dt)
  then show ?thesis by (simp add: elapse_def Let_def)
qed

lemma calls_run_normalized:
  "\<exists>new. calls (run odc w is) = calls w @ new \<and> list_all normalizedWrite new"
proof (induction "is" arbitrary: w)
  case Nil
  then show ?case by simp
next
  case (Cons i "is")
  obtain a where a: "calls (step odc w i) = calls w @ a" "list_all normalizedWrite a"
    using calls_step_normalized by blast
  obtain b where b: "calls (run odc (step odc w i) is) = calls (step odc w i) @ b"
      "list_all normalizedWrite b"
    using Cons.IH by blast
  from a b show ?case by simp
qed

text \<open>
  Claim C3. Over every sequence of inputs, so in particular over a pointer-down followed by
  any number of pointer-moves, every rectangle that the handlers write into the interaction
  state as \<^verbatim>\<open>multiCursorPosition\<close> has its origin at or before its terminal on both axes,
  whatever the direction of the drag.
\<close>

theorem written_rectangles_normalized:
  "\<forall>c \<in> set (emitted w (run odc w is)). normalizedWrite c"
  using calls_run_normalized [of odc w "is"] by (auto simp: emitted_def list_all_iff)

text \<open>
  A drag from cell (2, 2) up and to the left, over (1, 1) to (0, 0): the last rectangle
  written runs from (0, 0) to (2, 2).
\<close>

theorem written_rectangles_normalized_witness:
  "SetInteractionState (selection (cell 0 0) (cell 2 2) (cell 0 0) (cell 2 2)) \<in>
     set (emitted (mount (Some unitViewport) restingState)
            (run openEditor (mount (Some unitViewport) restingState) dragUpLeft)) \<and>
   normalized \<lparr>originPosition = cell 0 0, terminalPosition = cell 2 2\<rparr>"
  using written_rectangles_normalized
    [of "mount (Some unitViewport) restingState" openEditor dragUpLeft]
  by (simp add: emitted_def dragUpLeft_calls) (simp add: mount_def selection_def)

section \<open>What a pointer-move writes\<close>

lemma calls_onPointerMove:
  "downPosition w = Some dp \<Longrightarrow>
   \<exists>new. calls (onPointerMove w world event) = calls w @ new \<and> list_all (moveWrite dp) new"
  by (simp add: onPointerMove_def Let_def split: option.splits)

lemma calls_drag:
  "downPosition w = Some dp \<Longrightarrow>
   \<exists>new. calls (drag w ms) = calls w @ new \<and> list_all (moveWrite dp) new"
proof (induction ms arbitrary: w)
  case Nil
  then show ?case by simp
next
  case (Cons m ms)
  obtain a where a: "calls (onPointerMove w (fst m) (snd m)) = calls w @ a"
      "list_all (moveWrite dp) a"
    using calls_onPointerMove [OF Cons.prems] by blast
  have "downPosition (onPointerMove w (fst m) (snd m)) = Some dp"
    using Cons.prems by (simp add: onPointerMove_keeps)
  from Cons.IH [OF this] obtain b where
    b: "calls (drag (onPointerMove w (fst m) (snd m)) ms) =
          calls (onPointerMove w (fst m) (snd m)) @ b" "list_all (moveWrite dp) b"
    by blast
  from a b show ?case by simp
qed

text \<open>
  Claim C10. While the down cell is \<open>dp\<close>, every interaction state written by a run of
  pointer-moves has \<^verbatim>\<open>cursorPosition\<close> equal to \<open>dp\<close>, \<^verbatim>\<open>showInput\<close> false and
  \<^verbatim>\<open>inputInitialValue\<close> empty. A move to another cell writes that cell as
  \<^verbatim>\<open>keyboardMovePosition\<close> only, never as the cursor.
\<close>

theorem move_writes_keep_cursor:
  assumes dp: "downPosition w = Some dp"
  shows "(\<forall>c \<in> set (emitted w (drag w ms)). moveWrite dp c) \<and>
   (\<forall>s. emitted w (onPointerMove w world event) = [SetInteractionState s] \<and> toCell world \<noteq> dp
      \<longrightarrow> keyboardMovePosition s = toCell world \<and> cursorPosition s \<noteq> toCell world)"
proof -
  have during: "\<forall>c \<in> set (emitted w (drag w ms)). moveWrite dp c"
    using calls_drag [OF dp, of ms] by (auto simp: emitted_def list_all_iff)
  have live: "keyboardMovePosition s = toCell world \<and> cursorPosition s \<noteq> toCell world"
    if "emitted w (onPointerMove w world event) = [SetInteractionState s]"
      and "toCell world \<noteq> dp" for s
    using that dp
    by (auto simp: emitted_def onPointerMove_def toCell_def Let_def
             split: option.splits if_splits)
  from during live show ?thesis by blast
qed

text \<open>A press in cell (2, 2) and a move to cell (1, 1).\<close>

theorem move_writes_keep_cursor_witness:
  "downPosition pressed = Some (cell 2 2) \<and>
   emitted pressed (drag pressed [(point 150 25, primaryButton)]) =
     [SetInteractionState (selection (cell 1 1) (cell 2 2) (cell 1 1) (cell 2 2))] \<and>
   moveWrite (cell 2 2) (SetInteractionState (selection (cell 1 1) (cell 2 2) (cell 1 1) (cell 2 2))) \<and>
   toCell (point 150 25) = cell 1 1 \<and>
   keyboardMovePosition (selection (cell 1 1) (cell 2 2) (cell 1 1) (cell 2 2)) = cell 1 1 \<and>
   cursorPosition (selection (cell 1 1) (cell 2 2) (cell 1 1) (cell 2 2)) \<noteq> cell 1 1"
  using move_writes_keep_cursor
    [of pressed "cell 2 2" "[(point 150 25, primaryButton)]" "point 150 25" primaryButton]
  by (simp add: pressed_move emitted_def)
     (simp add: pressed_eq toCell_def point_def cell_def constant_defs selection_def)

section \<open>Consecutive pointer-moves\<close>




lemma onPointerMove_settled:
  assumes g: "gesture w" and dp: "downPosition w = Some dp" and ne: "toCell world \<noteq> dp"
    and prev: "previousPosition w = Some (resolvedRectangle dp world)"
  shows "calls (onPointerMove w world event) = calls w \<and>
         interactionState (onPointerMove w world event) = interactionState w \<and>
         viewportRef (onPointerMove w world event) = viewportRef w"
proof -
  from g obtain vp raw where s: "viewportRef w = Some vp" "downPositionRaw w = Some raw"
    by (auto elim: gestureE)
  have c: "(of_int \<lfloor>px world / CELL_WIDTH\<rfloor> = px dp \<and>
            of_int \<lfloor>py world / CELL_HEIGHT\<rfloor> = py dp) = False"
    using ne by (simp add: move_cell_eq)
  show ?thesis
    unfolding onPointerMove_def
    by (simp add: s dp prev c Let_def) (simp add: resolvedRectangle_def Let_def)
qed

lemma onPointerMove_single:
  assumes g: "gesture w" and dp: "downPosition w = Some dp" and eq: "toCell world = dp"
  shows "calls (onPointerMove w world event) =
           calls w @ [SetInteractionState (interactionState (onPointerMove w world event))] \<and>
         viewportRef (onPointerMove w world event) = viewportRef w \<and>
         gesture (onPointerMove w world event) \<and>
         interactionState (onPointerMove w world event) =
           \<lparr>keyboardMovePosition = dp, cursorPosition = dp,
            multiCursorPosition = \<lparr>originPosition = dp, terminalPosition = dp\<rparr>,
            showMultiCursor = False, showInput = False, inputInitialValue = ''''\<rparr>"
proof -
  from g obtain vp prev raw where s: "viewportRef w = Some vp"
      "previousPosition w = Some prev" "downPositionRaw w = Some raw"
    by (auto elim: gestureE)
  have c: "(of_int \<lfloor>px world / CELL_WIDTH\<rfloor> = px dp \<and>
            of_int \<lfloor>py world / CELL_HEIGHT\<rfloor> = py dp) = True"
    using eq by (simp add: move_cell_eq)
  show ?thesis
    unfolding onPointerMove_def gesture_def
    by (simp add: s dp c Let_def)
qed




section \<open>Pointer-down\<close>

text \<open>
  \<^verbatim>\<open>onPointerDown\<close> past the double-click test, with the cell, the classification of the
  button and the bounds test named.
\<close>

lemma onPointerDown_not_double:
  assumes "\<not> fst (isDoubleClick odc w world event)"
  shows "onPointerDown odc w world event =
    (case viewportRef w of
        None \<Rightarrow> w
      | Some vp \<Rightarrow>
          (let w1 = w\<lparr>downPositionRaw := Some world\<rparr>;
               c = toCell world;
               previousPosition' = \<lparr>originPosition = c, terminalPosition = c\<rparr>;
               interactionState' =
                 (interactionState w)
                   \<lparr>cursorPosition := c, multiCursorPosition := previousPosition',
                    showMultiCursor := False\<rparr>;
               proceed =
                 w1\<lparr>downPosition := Some c,
                    previousPosition := Some previousPosition',
                    interactionState := interactionState',
                    calls := calls w @ [SetInteractionState interactionState'],
                    pointerMoved := False\<rparr>
           in if isRightClick event \<and> showMultiCursor (interactionState w) then
                (if insideSelection (multiCursorPosition (interactionState w)) c then w1
                 else proceed)
              else if isRightClick event then w1
              else proceed))"
  using assms
  by (simp add: onPointerDown_def toCell_def isRightClick_def insideSelection_def Let_def
      split: option.splits)

subsection \<open>Right clicks\<close>

text \<open>
  Claim C5, as stated, fails: with the cells (0, 0) to (1, 1) selected, a press of button 2
  at world (550, 25), in cell (5, 1) outside the selection, is not a double click, and it
  moves the cursor to (5, 1) and hides the multi-cell selection.
\<close>

theorem right_click_outside_counterexample:
  "isRightClick secondaryButton \<and>
   \<not> fst (isDoubleClick openEditor selected (point 550 25) secondaryButton) \<and>
   showMultiCursor (interactionState selected) \<and>
   cursorPosition (interactionState selected) = cell 0 0 \<and>
   interactionState (onPointerDown openEditor selected (point 550 25) secondaryButton) =
     (selection (cell 1 1) (cell 5 1) (cell 5 1) (cell 5 1))\<lparr>showMultiCursor := False\<rparr> \<and>
   interactionState (onPointerDown openEditor selected (point 550 25) secondaryButton) \<noteq>
     interactionState selected"
  by (simp add: selected_eq isRightClick_def secondaryButton_def isDoubleClick_def
        onPointerDown_def selection_def cell_def point_def constant_defs Let_def)

text \<open>
  Claim C5, amended. A right click (button 2, or button 0 with the ctrl modifier) that is
  not consumed as a double click never calls the double-click handler. It leaves the
  interaction state unchanged and makes no call when no multi-cell selection is shown or
  the shown selection contains the clicked cell. When a multi-cell selection is shown and
  does not contain the clicked cell, the press is handled like a primary press: the cursor
  moves to the clicked cell and the selection collapses to it (the \<^verbatim>\<open>else if\<close> of line 81
  belongs to the outer test of line 69).
\<close>

theorem right_click_without_selection:
  assumes rc: "isRightClick event" and nd: "\<not> fst (isDoubleClick odc w world event)"
  shows
   "(\<forall>c \<in> set (emitted w (onPointerDown odc w world event)).
       \<forall>ev s. c \<noteq> OnDoubleClickCanvas ev s) \<and>
    (\<not> showMultiCursor (interactionState w) \<or>
     insideSelection (multiCursorPosition (interactionState w)) (toCell world) \<longrightarrow>
       interactionState (onPointerDown odc w world event) = interactionState w \<and>
       calls (onPointerDown odc w world event) = calls w) \<and>
    (viewportRef w \<noteq> None \<and> showMultiCursor (interactionState w) \<and>
     \<not> insideSelection (multiCursorPosition (interactionState w)) (toCell world) \<longrightarrow>
       interactionState (onPointerDown odc w world event) =
         (interactionState w)
           \<lparr>cursorPosition := toCell world,
            multiCursorPosition :=
              \<lparr>originPosition = toCell world, terminalPosition = toCell world\<rparr>,
            showMultiCursor := False\<rparr>)"
proof -
  note eq = onPointerDown_not_double [OF nd]
  have a: "\<forall>c \<in> set (emitted w (onPointerDown odc w world event)).
       \<forall>ev s. c \<noteq> OnDoubleClickCanvas ev s"
    unfolding eq emitted_def by (simp add: Let_def split: option.splits)
  have b: "interactionState (onPointerDown odc w world event) = interactionState w \<and>
       calls (onPointerDown odc w world event) = calls w"
    if "\<not> showMultiCursor (interactionState w) \<or>
        insideSelection (multiCursorPosition (interactionState w)) (toCell world)"
    using that rc unfolding eq by (auto simp: Let_def split: option.splits)
  have c: "interactionState (onPointerDown odc w world event) =
         (interactionState w)
           \<lparr>cursorPosition := toCell world,
            multiCursorPosition :=
              \<lparr>originPosition = toCell world, terminalPosition = toCell world\<rparr>,
            showMultiCursor := False\<rparr>"
    if "viewportRef w \<noteq> None" "showMultiCursor (interactionState w)"
      "\<not> insideSelection (multiCursorPosition (interactionState w)) (toCell world)"
    using that rc unfolding eq by (auto simp: Let_def split: option.splits)
  from a b c show ?thesis by blast
qed

text \<open>
  With the cells (0, 0) to (1, 1) selected: a press of button 2 in cell (1, 1) changes
  nothing, one in cell (5, 1) moves the cursor there.
\<close>

theorem right_click_without_selection_witness:
  "isRightClick secondaryButton \<and>
   \<not> fst (isDoubleClick openEditor selected (point 150 25) secondaryButton) \<and>
   insideSelection (multiCursorPosition (interactionState selected)) (toCell (point 150 25)) \<and>
   interactionState (onPointerDown openEditor selected (point 150 25) secondaryButton) =
     interactionState selected \<and>
   calls (onPointerDown openEditor selected (point 150 25) secondaryButton) = [] \<and>
   \<not> insideSelection (multiCursorPosition (interactionState selected)) (toCell (point 550 25)) \<and>
   cursorPosition (interactionState
     (onPointerDown openEditor selected (point 550 25) secondaryButton)) = cell 5 1 \<and>
   emitted selected (onPointerDown openEditor selected (point 550 25) secondaryButton) =
     [SetInteractionState
        ((selection (cell 1 1) (cell 5 1) (cell 5 1) (cell 5 1))\<lparr>showMultiCursor := False\<rparr>)]"
proof -
  have rc: "isRightClick secondaryButton"
    by (simp add: isRightClick_def secondaryButton_def)
  have nd: "\<not> fst (isDoubleClick openEditor selected p secondaryButton)" for p
    by (simp add: isDoubleClick_def secondaryButton_def)
  have inside: "insideSelection (multiCursorPosition (interactionState selected)) (toCell (point 150 25))"
    and outside: "\<not> insideSelection (multiCursorPosition (interactionState selected)) (toCell (point 550 25))"
    and cells: "toCell (point 550 25) = cell 5 1"
    by (simp_all add: selected_eq insideSelection_def toCell_def selection_def cell_def point_def
          constant_defs)
  have shown: "showMultiCursor (interactionState selected)" "viewportRef selected \<noteq> None"
    "calls selected = []"
    by (simp_all add: selected_eq selection_def)
  have out: "emitted selected (onPointerDown openEditor selected (point 550 25) secondaryButton) =
     [SetInteractionState
        ((selection (cell 1 1) (cell 5 1) (cell 5 1) (cell 5 1))\<lparr>showMultiCursor := False\<rparr>)]"
    by (simp add: emitted_def selected_eq isRightClick_def secondaryButton_def isDoubleClick_def
        onPointerDown_def selection_def cell_def point_def constant_defs Let_def)
  from right_click_without_selection [OF rc nd, of "point 150 25"]
       right_click_without_selection [OF rc nd, of "point 550 25"]
       rc nd inside outside shown cells out
  show ?thesis by simp
qed

subsection \<open>Cells\<close>

lemma resolved_of_toCell: "resolvedRectangle dp world = cellRectangle dp (toCell world)"
  by (simp add: resolvedRectangle_def cellRectangle_def toCell_def Let_def min_def max_def)

lemma onPointerMove_changed:
  assumes g: "gesture w" and dp: "downPosition w = Some dp"
    and prev: "previousPosition w = Some prev" and ne: "toCell world \<noteq> dp"
    and ch: "prev \<noteq> resolvedRectangle dp world"
  shows "calls (onPointerMove w world event) =
           calls w @
             [SetInteractionState
                \<lparr>keyboardMovePosition = toCell world, cursorPosition = dp,
                 multiCursorPosition = resolvedRectangle dp world,
                 showMultiCursor = True, showInput = False, inputInitialValue = ''''\<rparr>] \<and>
         previousPosition (onPointerMove w world event) = Some (resolvedRectangle dp world)"
proof -
  from g obtain vp raw where s: "viewportRef w = Some vp" "downPositionRaw w = Some raw"
    by (auto elim: gestureE)
  have c: "(of_int \<lfloor>px world / CELL_WIDTH\<rfloor> = px dp \<and>
            of_int \<lfloor>py world / CELL_HEIGHT\<rfloor> = py dp) = False"
    using ne by (simp add: move_cell_eq)
  from ch have h:
    "(px (originPosition prev) = px (originPosition (resolvedRectangle dp world)) \<and>
      py (originPosition prev) = py (originPosition (resolvedRectangle dp world)) \<and>
      px (terminalPosition prev) = px (terminalPosition (resolvedRectangle dp world)) \<and>
      py (terminalPosition prev) = py (terminalPosition (resolvedRectangle dp world))) = False"
    by (simp add: Rectangle_eq_iff MousePosition_eq_iff)
  show ?thesis
    using h unfolding onPointerMove_def resolvedRectangle_def toCell_def
    by (simp add: s dp prev c Let_def)
qed

text \<open>
  Claim C6. The cell of a world position is the componentwise floor of the division by
  \<^verbatim>\<open>CELL_WIDTH\<close> and \<^verbatim>\<open>CELL_HEIGHT\<close> (\<open>toCell\<close>), a total function of the position alone,
  and both handlers resolve their cell by it.
  \<^item> A pointer-down that is handled (viewport available, no double click, no right click)
    stores it as the down cell and writes it as the cursor and as both corners of the
    rectangle; a right click on a shown selection is swallowed exactly when that cell lies
    within the selection.
  \<^item> A pointer-move during a gesture with down cell \<open>dp\<close> takes its same-cell branch exactly
    when that cell is \<open>dp\<close>, and then writes the single-cell state. Otherwise its
    rectangle is the per-axis minimum and maximum of \<open>dp\<close> and that cell: where this
    differs from the rectangle written last, it writes the cell as \<^verbatim>\<open>keyboardMovePosition\<close>
    with that rectangle and records the rectangle; where it does not differ, it writes
    nothing.
\<close>

theorem cells_by_floor_division:
  "(viewportRef w \<noteq> None \<and> \<not> fst (isDoubleClick odc w world event) \<and>
    \<not> isRightClick event \<longrightarrow>
      downPosition (onPointerDown odc w world event) = Some (toCell world) \<and>
      cursorPosition (interactionState (onPointerDown odc w world event)) = toCell world \<and>
      multiCursorPosition (interactionState (onPointerDown odc w world event)) =
        \<lparr>originPosition = toCell world, terminalPosition = toCell world\<rparr>) \<and>
   (viewportRef w \<noteq> None \<and> \<not> fst (isDoubleClick odc w world event) \<and>
    isRightClick event \<and> showMultiCursor (interactionState w) \<longrightarrow>
      (calls (onPointerDown odc w world event) = calls w \<longleftrightarrow>
         insideSelection (multiCursorPosition (interactionState w)) (toCell world))) \<and>
   (gesture w \<and> downPosition w = Some dp \<and> previousPosition w = Some prev \<longrightarrow>
      (toCell world = dp \<longrightarrow>
         emitted w (onPointerMove w world event) = [SetInteractionState (singleCell dp)]) \<and>
      (toCell world \<noteq> dp \<and> prev \<noteq> cellRectangle dp (toCell world) \<longrightarrow>
         emitted w (onPointerMove w world event) =
           [SetInteractionState
              \<lparr>keyboardMovePosition = toCell world, cursorPosition = dp,
               multiCursorPosition = cellRectangle dp (toCell world),
               showMultiCursor = True, showInput = False, inputInitialValue = ''''\<rparr>] \<and>
         previousPosition (onPointerMove w world event) =
           Some (cellRectangle dp (toCell world))) \<and>
      (toCell world \<noteq> dp \<and> prev = cellRectangle dp (toCell world) \<longrightarrow>
         emitted w (onPointerMove w world event) = []))"
proof -
  have down: "downPosition (onPointerDown odc w world event) = Some (toCell world) \<and>
      cursorPosition (interactionState (onPointerDown odc w world event)) = toCell world \<and>
      multiCursorPosition (interactionState (onPointerDown odc w world event)) =
        \<lparr>originPosition = toCell world, terminalPosition = toCell world\<rparr>"
    if "viewportRef w \<noteq> None" and nd: "\<not> fst (isDoubleClick odc w world event)"
      and "\<not> isRightClick event"
    using that unfolding onPointerDown_not_double [OF nd]
    by (auto simp: Let_def)
  have right: "calls (onPointerDown odc w world event) = calls w \<longleftrightarrow>
      insideSelection (multiCursorPosition (interactionState w)) (toCell world)"
    if "viewportRef w \<noteq> None" and nd: "\<not> fst (isDoubleClick odc w world event)"
      and "isRightClick event" "showMultiCursor (interactionState w)"
    using that unfolding onPointerDown_not_double [OF nd]
    by (auto simp: Let_def split: if_splits)
  have same: "emitted w (onPointerMove w world event) = [SetInteractionState (singleCell dp)]"
    if "gesture w" "downPosition w = Some dp" "toCell world = dp"
    using onPointerMove_single [OF that, of event]
    by (simp add: emitted_def singleCell_def)
  have changed: "emitted w (onPointerMove w world event) =
           [SetInteractionState
              \<lparr>keyboardMovePosition = toCell world, cursorPosition = dp,
               multiCursorPosition = cellRectangle dp (toCell world),
               showMultiCursor = True, showInput = False, inputInitialValue = ''''\<rparr>] \<and>
         previousPosition (onPointerMove w world event) =
           Some (cellRectangle dp (toCell world))"
    if "gesture w" "downPosition w = Some dp" "previousPosition w = Some prev"
      "toCell world \<noteq> dp" "prev \<noteq> cellRectangle dp (toCell world)"
    using onPointerMove_changed [of w dp prev world event] that
    by (simp add: emitted_def resolved_of_toCell)
  have settled: "emitted w (onPointerMove w world event) = []"
    if "gesture w" "downPosition w = Some dp" "previousPosition w = Some prev"
      "toCell world \<noteq> dp" "prev = cellRectangle dp (toCell world)"
    using onPointerMove_settled [of w dp world event] that
    by (simp add: emitted_def resolved_of_toCell)
  show ?thesis
    apply (intro conjI impI)
          apply (elim conjE, erule (2) down [THEN conjunct1])
         apply (elim conjE, erule (2) down [THEN conjunct2, THEN conjunct1])
        apply (elim conjE, erule (2) down [THEN conjunct2, THEN conjunct2])
       apply (elim conjE, erule (3) right)
      apply (elim conjE, erule (2) same)
     apply (elim conjE, erule (4) changed [THEN conjunct1])
     apply (elim conjE, erule (4) changed [THEN conjunct2])
    apply (elim conjE, erule (4) settled)
    done
qed

text \<open>
  With the cell dimensions of Scenario A of the specification, world (250, 45) is cell
  (2, 2), world (260, 50) too, and world (150, 25) is cell (1, 1). With the cells (0, 0) to
  (1, 1) selected, a press of button 2 at (150, 25) is swallowed and one at (550, 25), in
  cell (5, 1), is not.
\<close>

theorem cells_by_floor_division_witness:
  "toCell (point 250 45) = cell 2 2 \<and>
   viewportRef (mount (Some unitViewport) restingState) \<noteq> None \<and>
   \<not> isRightClick primaryButton \<and>
   downPosition pressed = Some (cell 2 2) \<and>
   cursorPosition (interactionState pressed) = cell 2 2 \<and>
   isRightClick secondaryButton \<and> showMultiCursor (interactionState selected) \<and>
   insideSelection (multiCursorPosition (interactionState selected)) (toCell (point 150 25)) \<and>
   calls (onPointerDown openEditor selected (point 150 25) secondaryButton) = calls selected \<and>
   \<not> insideSelection (multiCursorPosition (interactionState selected)) (toCell (point 550 25)) \<and>
   calls (onPointerDown openEditor selected (point 550 25) secondaryButton) \<noteq> calls selected \<and>
   gesture pressed \<and>
   previousPosition pressed = Some \<lparr>originPosition = cell 2 2, terminalPosition = cell 2 2\<rparr> \<and>
   toCell (point 260 50) = cell 2 2 \<and>
   emitted pressed (onPointerMove pressed (point 260 50) primaryButton) =
     [SetInteractionState (singleCell (cell 2 2))] \<and>
   toCell (point 150 25) = cell 1 1 \<and>
   cellRectangle (cell 2 2) (cell 1 1) =
     \<lparr>originPosition = cell 1 1, terminalPosition = cell 2 2\<rparr> \<and>
   emitted pressed (onPointerMove pressed (point 150 25) primaryButton) =
     [SetInteractionState (selection (cell 1 1) (cell 2 2) (cell 1 1) (cell 2 2))] \<and>
   previousPosition (onPointerMove pressed (point 150 25) primaryButton) =
     Some \<lparr>originPosition = cell 1 1, terminalPosition = cell 2 2\<rparr>"
proof -
  have a: "viewportRef (mount (Some unitViewport) restingState) \<noteq> None"
    "\<not> fst (isDoubleClick openEditor (mount (Some unitViewport) restingState)
        (point 250 45) primaryButton)"
    "\<not> isRightClick primaryButton"
    by (simp_all add: mount_def isDoubleClick_def isRightClick_def primaryButton_def)
  have r: "viewportRef selected \<noteq> None" "isRightClick secondaryButton"
    "showMultiCursor (interactionState selected)"
    "\<not> fst (isDoubleClick openEditor selected p secondaryButton)" for p
    by (simp_all add: selected_eq selection_def isDoubleClick_def isRightClick_def
          secondaryButton_def)
  have i: "insideSelection (multiCursorPosition (interactionState selected)) (toCell (point 150 25))"
    "\<not> insideSelection (multiCursorPosition (interactionState selected)) (toCell (point 550 25))"
    by (simp_all add: selected_eq insideSelection_def toCell_def selection_def cell_def point_def
          CELL_WIDTH_def CELL_HEIGHT_def)
  have g: "gesture pressed" "downPosition pressed = Some (cell 2 2)"
    "previousPosition pressed = Some \<lparr>originPosition = cell 2 2, terminalPosition = cell 2 2\<rparr>"
    by (simp_all add: pressed_eq gesture_def)
  have c: "toCell (point 250 45) = cell 2 2" "toCell (point 260 50) = cell 2 2"
    "toCell (point 150 25) = cell 1 1"
    by (simp_all add: toCell_def point_def cell_def CELL_WIDTH_def CELL_HEIGHT_def)
  have q: "cellRectangle (cell 2 2) (cell 1 1) =
      \<lparr>originPosition = cell 1 1, terminalPosition = cell 2 2\<rparr>"
    "cell 1 1 \<noteq> cell 2 2"
    "\<lparr>originPosition = cell 2 2, terminalPosition = cell 2 2\<rparr> \<noteq>
       \<lparr>originPosition = cell 1 1, terminalPosition = cell 2 2\<rparr>"
    by (simp_all add: cellRectangle_def cell_def)
  have down: "downPosition pressed = Some (cell 2 2) \<and>
      cursorPosition (interactionState pressed) = cell 2 2"
    using cells_by_floor_division
         [of "mount (Some unitViewport) restingState" openEditor "point 250 45" primaryButton]
       a c
    by (simp add: pressed_def [symmetric])
  have swallowed: "calls (onPointerDown openEditor selected (point 150 25) secondaryButton) =
      calls selected"
    using cells_by_floor_division [of selected openEditor "point 150 25" secondaryButton] r i
    by simp
  have handled: "calls (onPointerDown openEditor selected (point 550 25) secondaryButton) \<noteq>
      calls selected"
    using cells_by_floor_division [of selected openEditor "point 550 25" secondaryButton] r i
    by simp
  have same: "emitted pressed (onPointerMove pressed (point 260 50) primaryButton) =
      [SetInteractionState (singleCell (cell 2 2))]"
    using cells_by_floor_division
            [of pressed openEditor "point 260 50" primaryButton "cell 2 2"
                "\<lparr>originPosition = cell 2 2, terminalPosition = cell 2 2\<rparr>"]
          g c
    by simp
  have other: "emitted pressed (onPointerMove pressed (point 150 25) primaryButton) =
      [SetInteractionState (selection (cell 1 1) (cell 2 2) (cell 1 1) (cell 2 2))] \<and>
    previousPosition (onPointerMove pressed (point 150 25) primaryButton) =
      Some \<lparr>originPosition = cell 1 1, terminalPosition = cell 2 2\<rparr>"
    using cells_by_floor_division
            [of pressed openEditor "point 150 25" primaryButton "cell 2 2"
                "\<lparr>originPosition = cell 2 2, terminalPosition = cell 2 2\<rparr>"]
          g c q
    by (simp add: selection_def)
  from a r(2,3) i g c q(1) down swallowed handled same other show ?thesis by blast
qed

subsection \<open>The raw down position\<close>

text \<open>
  Claim C8, as stated, fails: not every pointer-down with the viewport available overwrites
  the raw down position. A press consumed as a double click returns before line 61: after a
  click at (10, 10), the double click at (12, 11) leaves (10, 10) stored.
\<close>

theorem double_click_keeps_raw_counterexample:
  "viewportRef afterClick = Some unitViewport \<and>
   fst (isDoubleClick openEditor afterClick (point 12 11) primaryButton) \<and>
   downPositionRaw (onPointerDown openEditor afterClick (point 12 11) primaryButton) =
     Some (point 10 10) \<and>
   point 10 10 \<noteq> point 12 11"
  by (simp add: afterClick_eq onPointerDown_def isDoubleClick_def truthy_def primaryButton_def
        point_def unitViewport_def MINIMUM_MOVE_POSITION_def sub64_def mul64_def gt64_def)

text \<open>
  Claim C8, amended. Every pointer-down with the viewport available that is not consumed as
  a double click stores the event's world position as the raw down position, before the
  right-click branch is evaluated. A right click that is swallowed changes nothing else, so
  the distance test of the next \<^verbatim>\<open>isDoubleClick\<close> (in binary64, as line 47 computes it) is
  measured from the position of the swallowed right click.
\<close>

theorem onPointerDown_overwrites_raw:
  assumes vp: "viewportRef w = Some vp" and nd: "\<not> fst (isDoubleClick odc w world event)"
  shows
   "downPositionRaw (onPointerDown odc w world event) = Some world \<and>
    (isRightClick event \<and>
     (\<not> showMultiCursor (interactionState w) \<or>
      insideSelection (multiCursorPosition (interactionState w)) (toCell world)) \<longrightarrow>
       onPointerDown odc w world event = w\<lparr>downPositionRaw := Some world\<rparr> \<and>
       (fst (isDoubleClick odc (onPointerDown odc w world event) world' event') \<longleftrightarrow>
          button event' = 0 \<and> truthy (doubleClickTimeout w) \<and> \<not> pointerMoved w \<and>
          lt64 (manhattan64 world world') (mul64 5 (scale_x vp))))"
proof -
  note eq = onPointerDown_not_double [OF nd]
  have raw: "downPositionRaw (onPointerDown odc w world event) = Some world"
    unfolding eq by (simp add: vp Let_def)
  have swallowed: "onPointerDown odc w world event = w\<lparr>downPositionRaw := Some world\<rparr>"
    if "isRightClick event"
      "\<not> showMultiCursor (interactionState w) \<or>
       insideSelection (multiCursorPosition (interactionState w)) (toCell world)"
    using that unfolding eq by (auto simp: vp Let_def)
  have next_click:
    "fst (isDoubleClick odc (w\<lparr>downPositionRaw := Some world\<rparr>) world' event') \<longleftrightarrow>
       button event' = 0 \<and> truthy (doubleClickTimeout w) \<and> \<not> pointerMoved w \<and>
       lt64 (manhattan64 world world') (mul64 5 (scale_x vp))"
    by (simp add: isDoubleClick_def vp MINIMUM_MOVE_POSITION_def manhattan64_def)
  from raw swallowed next_click show ?thesis by simp
qed

text \<open>
  After a click at (10, 10), a swallowed press of button 2 at (300, 300): a primary press at
  (10, 10) is no longer a double click, one at (301, 301) is.
\<close>

theorem onPointerDown_overwrites_raw_witness:
  "viewportRef afterClick = Some unitViewport \<and>
   \<not> fst (isDoubleClick openEditor afterClick (point 300 300) secondaryButton) \<and>
   isRightClick secondaryButton \<and> \<not> showMultiCursor (interactionState afterClick) \<and>
   downPositionRaw afterClick = Some (point 10 10) \<and>
   downPositionRaw (onPointerDown openEditor afterClick (point 300 300) secondaryButton) =
     Some (point 300 300) \<and>
   \<not> fst (isDoubleClick openEditor
           (onPointerDown openEditor afterClick (point 300 300) secondaryButton)
           (point 10 10) primaryButton) \<and>
   fst (isDoubleClick openEditor
           (onPointerDown openEditor afterClick (point 300 300) secondaryButton)
           (point 301 301) primaryButton)"
proof -
  have vp: "viewportRef afterClick = Some unitViewport"
    and nd: "\<not> fst (isDoubleClick openEditor afterClick (point 300 300) secondaryButton)"
    and rc: "isRightClick secondaryButton"
    and ns: "\<not> showMultiCursor (interactionState afterClick)"
    and st: "truthy (doubleClickTimeout afterClick)" "\<not> pointerMoved afterClick"
      "downPositionRaw afterClick = Some (point 10 10)"
    by (simp_all add: afterClick_eq isDoubleClick_def secondaryButton_def isRightClick_def
          restingState_def truthy_def)
  note t = onPointerDown_overwrites_raw [OF vp nd]
  have raw: "downPositionRaw (onPointerDown openEditor afterClick (point 300 300) secondaryButton) =
      Some (point 300 300)"
    using t by blast
  have next_click: "fst (isDoubleClick openEditor
           (onPointerDown openEditor afterClick (point 300 300) secondaryButton) q primaryButton)
       \<longleftrightarrow> lt64 (manhattan64 (point 300 300) q) (mul64 5 (scale_x unitViewport))" for q
  proof -
    from t [of q primaryButton] rc ns
    have "fst (isDoubleClick openEditor
           (onPointerDown openEditor afterClick (point 300 300) secondaryButton) q primaryButton)
       \<longleftrightarrow> button primaryButton = 0 \<and> truthy (doubleClickTimeout afterClick) \<and>
          \<not> pointerMoved afterClick \<and>
          lt64 (manhattan64 (point 300 300) q) (mul64 5 (scale_x unitViewport))"
      by blast
    with st show ?thesis
      by (simp add: primaryButton_def)
  qed
  have far: "\<not> lt64 (manhattan64 (point 300 300) (point 10 10)) (mul64 5 (scale_x unitViewport))"
    and near: "lt64 (manhattan64 (point 300 300) (point 301 301)) (mul64 5 (scale_x unitViewport))"
    by (simp_all add: manhattan64_def point_def unitViewport_def sub64_def mul64_def)
  from vp nd rc ns st(3) raw next_click [of "point 10 10"] next_click [of "point 301 301"] far near
  show ?thesis by blast
qed

section \<open>Pointer-up\<close>

lemma onPointerMove_sets_flag:
  assumes "map_option scale_x (viewportRef w) = Some sc" "downPosition w \<noteq> None"
    "previousPosition w \<noteq> None" "downPositionRaw w = Some raw"
    "gt64 (manhattan64 raw world) (mul64 5 sc)"
  shows "pointerMoved (onPointerMove w world event)"
  using assms
  by (auto simp: onPointerMove_def MINIMUM_MOVE_POSITION_def manhattan64_def Let_def)

lemma drag_sets_flag:
  assumes "map_option scale_x (viewportRef w) = Some sc" "downPosition w \<noteq> None"
    "previousPosition w \<noteq> None" "downPositionRaw w = Some raw"
    "m \<in> set ms" "gt64 (manhattan64 raw (fst m)) (mul64 5 sc)"
  shows "pointerMoved (drag w ms)"
  using assms
proof (induction ms arbitrary: w)
  case Nil
  then show ?case by simp
next
  case (Cons a ms)
  show ?case
  proof (cases "m = a")
    case True
    with Cons.prems have "pointerMoved (onPointerMove w (fst a) (snd a))"
      by (auto intro: onPointerMove_sets_flag)
    then show ?thesis by (simp add: drag_pointerMoved)
  next
    case False
    with Cons.prems have "m \<in> set ms" by simp
    with Cons.prems have "pointerMoved (drag (onPointerMove w (fst a) (snd a)) ms)"
      by (intro Cons.IH) (simp_all add: onPointerMove_keeps)
    then show ?thesis by simp
  qed
qed

text \<open>
  Claim C7. \<^verbatim>\<open>onPointerUp\<close> schedules a timer exactly when a down cell is stored and the
  movement flag is not set; the timer is due in 500 time units and its handle is stored.
  Otherwise the timer queue and the stored handle stay as they are. In particular, when one
  of the pointer-moves of a gesture exceeded the movement threshold (its Manhattan distance
  from the raw down position was above 5 times the viewport's horizontal scale, both
  computed in binary64 as in line 116), the pointer-up that follows schedules nothing.
\<close>

theorem onPointerUp_arms_iff:
  "(pending (onPointerUp w) \<noteq> pending w \<longleftrightarrow> downPosition w \<noteq> None \<and> \<not> pointerMoved w) \<and>
   (downPosition w \<noteq> None \<and> \<not> pointerMoved w \<longrightarrow>
      pending (onPointerUp w) = pending w @ [(nextHandle w, clock w + 500)] \<and>
      doubleClickTimeout (onPointerUp w) = Some (nextHandle w)) \<and>
   (\<not> (downPosition w \<noteq> None \<and> \<not> pointerMoved w) \<longrightarrow>
      pending (onPointerUp w) = pending w \<and>
      doubleClickTimeout (onPointerUp w) = doubleClickTimeout w) \<and>
   (gesture w \<and> viewportRef w = Some vp \<and> downPositionRaw w = Some raw \<and>
    m \<in> set ms \<and> gt64 (manhattan64 raw (fst m)) (mul64 5 (scale_x vp)) \<longrightarrow>
      pending (onPointerUp (drag w ms)) = pending w \<and>
      doubleClickTimeout (onPointerUp (drag w ms)) = doubleClickTimeout w)"
proof -
  have moved: "pointerMoved (drag w ms)"
    if "gesture w" "viewportRef w = Some vp" "downPositionRaw w = Some raw"
      "m \<in> set ms" "gt64 (manhattan64 raw (fst m)) (mul64 5 (scale_x vp))"
    using that by (intro drag_sets_flag [where sc = "scale_x vp" and raw = raw and m = m])
      (simp_all add: gesture_def)
  show ?thesis
    using moved
    by (simp add: pending_onPointerUp doubleClickTimeout_onPointerUp drag_keeps
          DOUBLE_CLICK_TIME_def)
qed

text \<open>
  A press at (250, 45): released at once it schedules the timer 1 for time 500; released
  after a move to (500, 45) it schedules nothing. With the scale \<^verbatim>\<open>0.3\<close> a move by
  \<^verbatim>\<open>1.5\<close> does not exceed the threshold, since \<^verbatim>\<open>5 * 0.3 === 1.5\<close> in binary64, and the
  release schedules the timer.
\<close>

theorem onPointerUp_arms_iff_witness:
  "downPosition pressed \<noteq> None \<and> \<not> pointerMoved pressed \<and>
   pending (onPointerUp pressed) = [(1, 500)] \<and>
   doubleClickTimeout (onPointerUp pressed) = Some 1 \<and>
   gesture pressed \<and> viewportRef pressed = Some unitViewport \<and>
   downPositionRaw pressed = Some (point 250 45) \<and>
   gt64 (manhattan64 (point 250 45) (point 500 45)) (mul64 5 (scale_x unitViewport)) \<and>
   pointerMoved (drag pressed [(point 500 45, primaryButton)]) \<and>
   pending (onPointerUp (drag pressed [(point 500 45, primaryButton)])) = [] \<and>
   doubleClickTimeout (onPointerUp (drag pressed [(point 500 45, primaryButton)])) = None \<and>
   \<bar>px (point 0 0) - px (point (3 / 2) 0)\<bar> + \<bar>py (point 0 0) - py (point (3 / 2) 0)\<bar>
     > 5 * scale_x threeTenthsViewport \<and>
   \<not> gt64 (manhattan64 (point 0 0) (point (3 / 2) 0)) (mul64 5 (scale_x threeTenthsViewport)) \<and>
   \<not> pointerMoved (onPointerMove pressedZoomed (point (3 / 2) 0) primaryButton) \<and>
   pending (onPointerUp (onPointerMove pressedZoomed (point (3 / 2) 0) primaryButton)) =
     [(1, 500)]"
proof -
  have far: "downPosition pressed \<noteq> None \<and> \<not> pointerMoved pressed \<and>
     pending (onPointerUp pressed) = [(1, 500)] \<and>
     doubleClickTimeout (onPointerUp pressed) = Some 1 \<and>
     gesture pressed \<and> viewportRef pressed = Some unitViewport \<and>
     downPositionRaw pressed = Some (point 250 45) \<and>
     gt64 (manhattan64 (point 250 45) (point 500 45)) (mul64 5 (scale_x unitViewport)) \<and>
     pointerMoved (drag pressed [(point 500 45, primaryButton)]) \<and>
     pending (onPointerUp (drag pressed [(point 500 45, primaryButton)])) = [] \<and>
     doubleClickTimeout (onPointerUp (drag pressed [(point 500 45, primaryButton)])) = None"
    using onPointerUp_arms_iff
            [of pressed unitViewport "point 250 45" "(point 500 45, primaryButton)"
                "[(point 500 45, primaryButton)]"]
    by (simp add: pressed_far_move)
       (simp add: pressed_eq gesture_def point_def unitViewport_def manhattan64_def
          sub64_def mul64_def gt64_def)
  have exact: "\<bar>px (point 0 0) - px (point (3 / 2) 0)\<bar> +
      \<bar>py (point 0 0) - py (point (3 / 2) 0)\<bar> > 5 * scale_x threeTenthsViewport"
    by (simp add: point_def threeTenthsViewport_def)
  have thr: "mul64 5 (scale_x threeTenthsViewport) = Fin (3 / 2)"
    unfolding threeTenthsViewport_def by (simp only: Viewport.select_convs round64_examples)
  have dist: "manhattan64 (point 0 0) (point (3 / 2) 0) = Fin (3 / 2)"
    by (simp add: manhattan64_def point_def sub64_def round64_def exponent_def roundEven_def
          bitLength.simps Let_def)
  have rounded: "\<not> gt64 (manhattan64 (point 0 0) (point (3 / 2) 0))
      (mul64 5 (scale_x threeTenthsViewport))"
    by (simp add: thr dist gt64_def)
  have still: "\<not> pointerMoved (onPointerMove pressedZoomed (point (3 / 2) 0) primaryButton)"
    and down: "downPosition (onPointerMove pressedZoomed (point (3 / 2) 0) primaryButton) \<noteq> None"
    and queue: "pending (onPointerMove pressedZoomed (point (3 / 2) 0) primaryButton) = []"
      "nextHandle (onPointerMove pressedZoomed (point (3 / 2) 0) primaryButton) = 1"
      "clock (onPointerMove pressedZoomed (point (3 / 2) 0) primaryButton) = 0"
    unfolding zoomedMove_eq by (simp_all add: pressedZoomed_eq)
  from onPointerUp_arms_iff
         [of "onPointerMove pressedZoomed (point (3 / 2) 0) primaryButton"]
       still down queue
  have armed: "pending (onPointerUp (onPointerMove pressedZoomed (point (3 / 2) 0) primaryButton)) =
     [(1, 500)]"
    by simp
  from far exact rounded still armed show ?thesis by blast
qed

section \<open>After a double click\<close>

lemma drag_no_gesture: "downPosition w = None \<Longrightarrow> drag w ms = w"
  by (induction ms) (simp_all add: onPointerMove_def split: option.splits)

text \<open>
  Claim C9, as stated, fails when an earlier press has not been released. After a click at
  (10, 10) and a press at (500, 500), a second press at (501, 500) is a double click while
  the down cell of the first press is still stored: the next pointer-move is not a no-op,
  the pointer-up schedules the timer 2, and a third press at (501, 500) is a double click
  again.
\<close>

theorem overlapping_press_counterexample:
  "fst (isDoubleClick openEditor secondDown (point 501 500) primaryButton) \<and>
   overlappingPress = onPointerDown openEditor secondDown (point 501 500) primaryButton \<and>
   downPosition overlappingPress = Some farCell \<and>
   onPointerMove overlappingPress (point 900 500) primaryButton \<noteq> overlappingPress \<and>
   doubleClickTimeout (onPointerUp overlappingPress) = Some 2 \<and>
   fst (isDoubleClick openEditor (onPointerUp overlappingPress) (point 501 500) primaryButton)"
proof -
  have dc: "fst (isDoubleClick openEditor secondDown (point 501 500) primaryButton)"
    by (simp add: secondDown_eq isDoubleClick_def truthy_def
        primaryButton_def point_def unitViewport_def MINIMUM_MOVE_POSITION_def sub64_def mul64_def gt64_def)
  have dp: "downPosition overlappingPress = Some farCell"
    by (simp add: overlappingPress_eq secondDown_eq)
  have "pointerMoved (onPointerMove overlappingPress (point 900 500) primaryButton)"
    by (simp add: overlappingPress_eq secondDown_eq onPointerMove_def point_def unitViewport_def
          farCell_def constant_defs Let_def)
  moreover have "\<not> pointerMoved overlappingPress"
    by (simp add: overlappingPress_eq secondDown_eq)
  ultimately have mv: "onPointerMove overlappingPress (point 900 500) primaryButton \<noteq> overlappingPress"
    by auto
  have up: "doubleClickTimeout (onPointerUp overlappingPress) = Some 2"
    by (simp add: doubleClickTimeout_onPointerUp overlappingPress_eq secondDown_eq)
  have third: "fst (isDoubleClick openEditor (onPointerUp overlappingPress) (point 501 500) primaryButton)"
    by (simp add: overlappingPress_eq secondDown_eq onPointerUp_def window_setTimeout_def
          isDoubleClick_def truthy_def primaryButton_def point_def unitViewport_def
          MINIMUM_MOVE_POSITION_def sub64_def mul64_def gt64_def Let_def)
  from dc dp mv up third show ?thesis by (simp add: overlappingPress_def)
qed

text \<open>
  Claim C9, amended. When a pointer-down is consumed as a double click while no down cell
  is stored (no earlier press is unreleased), none is stored for that gesture: every
  pointer-move that follows is a no-op, the pointer-up that follows schedules no timer and
  stores no handle, and a third press after it, at once or later, is not a double click.
\<close>

theorem double_click_starts_no_gesture:
  assumes idle: "downPosition w = None" and dc: "fst (isDoubleClick odc w world event)"
  shows
   "downPosition (onPointerDown odc w world event) = None \<and>
    drag (onPointerDown odc w world event) ms = onPointerDown odc w world event \<and>
    pending (onPointerUp (drag (onPointerDown odc w world event) ms)) = pending w \<and>
    doubleClickTimeout (onPointerUp (drag (onPointerDown odc w world event) ms)) = None \<and>
    \<not> fst (isDoubleClick odc
            (elapse dt (onPointerUp (drag (onPointerDown odc w world event) ms)))
            world' event')"
proof -
  let ?w = "onPointerDown odc w world event"
  have down: "?w = snd (isDoubleClick odc w world event)"
    using dc by (simp add: onPointerDown_def)
  have none: "downPosition ?w = None" and cleared: "doubleClickTimeout ?w = None"
    using dc idle unfolding down
    by (auto simp: isDoubleClick_def split: option.splits if_splits)
  have still: "drag ?w ms = ?w"
    using none by (rule drag_no_gesture)
  have up: "pending (onPointerUp ?w) = pending w" "doubleClickTimeout (onPointerUp ?w) = None"
    using none cleared by (simp_all add: pending_onPointerUp doubleClickTimeout_onPointerUp)
  have "doubleClickTimeout (elapse dt (onPointerUp ?w)) = None"
    using up(2) by (simp add: elapse_def Let_def)
  then have third: "\<not> fst (isDoubleClick odc (elapse dt (onPointerUp ?w)) world' event')"
    by (simp add: isDoubleClick_def truthy_def split: option.splits)
  from none still up third show ?thesis by simp
qed

text \<open>
  After a click at (10, 10), the double click at (12, 11), a move, the release and a third
  press at (12, 11).
\<close>

theorem double_click_starts_no_gesture_witness:
  "downPosition afterClick = None \<and>
   fst (isDoubleClick openEditor afterClick (point 12 11) primaryButton) \<and>
   pending afterClick = [(1, 500)] \<and>
   drag (onPointerDown openEditor afterClick (point 12 11) primaryButton)
     [(point 500 45, primaryButton)] =
     onPointerDown openEditor afterClick (point 12 11) primaryButton \<and>
   pending (onPointerUp (drag (onPointerDown openEditor afterClick (point 12 11) primaryButton)
     [(point 500 45, primaryButton)])) = pending afterClick \<and>
   doubleClickTimeout
     (onPointerUp (drag (onPointerDown openEditor afterClick (point 12 11) primaryButton)
     [(point 500 45, primaryButton)])) = None \<and>
   \<not> fst (isDoubleClick openEditor
          (elapse 0 (onPointerUp (drag (onPointerDown openEditor afterClick (point 12 11) primaryButton)
             [(point 500 45, primaryButton)])))
          (point 12 11) primaryButton)"
proof -
  have idle: "downPosition afterClick = None"
    and dc: "fst (isDoubleClick openEditor afterClick (point 12 11) primaryButton)"
    and p: "pending afterClick = [(1, 500)]"
    by (simp_all add: afterClick_eq isDoubleClick_def truthy_def primaryButton_def point_def
          unitViewport_def MINIMUM_MOVE_POSITION_def sub64_def mul64_def gt64_def)
  from double_click_starts_no_gesture
         [OF idle dc, of "[(point 500 45, primaryButton)]" 0 "point 12 11" primaryButton]
       idle dc p
  show ?thesis by blast
qed

end
